theory Spec2Isabelle
  imports Main "HOL-Library.Word"
begin

unbundle bit_operations_syntax

text \<open>
  The Blosc filter for HDF5, \<open>src/blosc_filter.c\<close>: the setup function
  \<open>blosc_set_local\<close>, which records the type size and the chunk size in the filter's
  parameter array, and the filter function \<open>blosc_filter\<close>, which compresses or
  decompresses one chunk. The HDF5 and Blosc libraries are outside the file; their
  calls are modelled by what they give back. The registration function and the
  thread-local context of lines 63 to 166 take no part in the properties below.
\<close>

section \<open>Machine types and the slot array\<close>

text \<open>
  The filter is C on an LP64 platform: \<open>unsigned\<close> and \<open>int\<close> are 32 bits wide,
  \<open>size_t\<close> and \<open>hsize_t\<close> are 64 bits wide. An \<open>int\<close> is kept as its bit
  pattern and read with \<open>sint\<close> where the source compares it with zero.
\<close>

type_synonym uint = "32 word"
type_synonym cint = "32 word"
type_synonym size_t = "64 word"
type_synonym hsize_t = "64 word"
type_synonym byte = "8 word"

text \<open>
  What the C source leaves undefined is a value of the model: a read past the end of
  an array, a pointer that names no live block, an access past the end of a block.
\<close>

datatype undefined_behaviour =
    Read_past_array nat
  | Write_past_array nat
  | Invalid_pointer
  | Write_past_block

datatype h5e_minor = H5E_CANTREGISTER | H5E_CALLBACK

text \<open>One \<open>PUSH_ERR(func, minor, str)\<close>: the function name, the minor code, the message.\<close>

type_synonym h5_error = "string \<times> h5e_minor \<times> string"

text \<open>
  The macros of \<open>blosc_filter.h\<close> and \<open>blosc.h\<close> that \<open>blosc_set_local\<close> uses.
  The headers are not part of the source file, so the values are parameters.
\<close>

record blosc_macros =
  FILTER_BLOSC_VERSION :: uint
  BLOSC_VERSION_FORMAT :: uint
  BLOSC_MAX_TYPESIZE :: uint

section \<open>The HDF5 objects that \<open>blosc_set_local\<close> queries\<close>

text \<open>
  A datatype handle names either a type of a plain class with its size in bytes, or a
  fixed-size array type over a base type, which may be an array type again.
  \<open>H5Tget_size\<close>, \<open>H5Tget_class\<close> and \<open>H5Tget_super\<close> are the library calls of the
  same names.
\<close>

datatype plain_class = INTEGER | FLOAT | STRING | OPAQUE | COMPOUND

datatype H5T_class_t = H5T_PLAIN plain_class | H5T_ARRAY

datatype h5type = Plain plain_class nat | ArrayOf h5type "nat list"

fun H5Tget_size :: "h5type \<Rightarrow> nat" where
  "H5Tget_size (Plain c n) = n"
| "H5Tget_size (ArrayOf b ds) = H5Tget_size b * prod_list ds"

fun H5Tget_class :: "h5type \<Rightarrow> H5T_class_t" where
  "H5Tget_class (Plain c n) = H5T_PLAIN c"
| "H5Tget_class (ArrayOf b ds) = H5T_ARRAY"

fun H5Tget_super :: "h5type \<Rightarrow> h5type option" where
  "H5Tget_super (Plain c n) = None"
| "H5Tget_super (ArrayOf b ds) = Some b"

text \<open>The scalar at the bottom of any nesting of array types.\<close>

fun innermost_scalar :: "h5type \<Rightarrow> h5type" where
  "innermost_scalar (Plain c n) = Plain c n"
| "innermost_scalar (ArrayOf b ds) = innermost_scalar b"

text \<open>
  A dataset creation property list, as far as the filter sees it: the entry of the
  Blosc filter in the pipeline (its flags and its stored \<open>cd_values\<close>), if there is one,
  and the chunk dimensions, if the layout is chunked.
\<close>

record dcpl_t =
  filter_blosc :: "(uint \<times> uint list) option"
  chunk_dims :: "hsize_t list option"

text \<open>
  \<open>H5Pget_filter_by_id(dcpl, FILTER_BLOSC, &flags, &nelements, values, 0, NULL)\<close>:
  fails when the filter is not in the pipeline; otherwise it copies as many stored values
  as fit into the caller's array and sets \<open>nelements\<close> to the number stored.
\<close>

definition H5Pget_filter_by_id :: "dcpl_t \<Rightarrow> uint list \<Rightarrow> (uint \<times> size_t \<times> uint list) option" where
  "H5Pget_filter_by_id dcpl vals =
     (case filter_blosc dcpl of
        None \<Rightarrow> None
      | Some (fl, stored) \<Rightarrow>
          let k = min (length vals) (length stored)
          in Some (fl, of_nat (length stored), take k stored @ drop k vals))"

text \<open>
  \<open>H5Pget_chunk(dcpl, max_ndims, chunkdims)\<close>: negative when the layout is not chunked,
  otherwise the rank, with at most \<open>max_ndims\<close> extents written.
\<close>

definition H5Pget_chunk :: "dcpl_t \<Rightarrow> nat \<Rightarrow> int \<times> hsize_t list" where
  "H5Pget_chunk dcpl max_ndims =
     (case chunk_dims dcpl of
        None \<Rightarrow> (- 1, [])
      | Some ds \<Rightarrow> (int (length ds), take max_ndims ds))"

text \<open>
  \<open>H5Pmodify_filter(dcpl, FILTER_BLOSC, flags, nelements, values)\<close> reads
  \<open>nelements\<close> entries of the caller's array, which holds 8: more is a read past it.
  It fails when the filter is not in the pipeline.
\<close>

definition H5Pmodify_filter ::
  "dcpl_t \<Rightarrow> uint \<Rightarrow> size_t \<Rightarrow> uint list \<Rightarrow> undefined_behaviour + (int \<times> dcpl_t)" where
  "H5Pmodify_filter dcpl fl nelements vals =
     (if length vals < unat nelements then Inl (Read_past_array (length vals))
      else case filter_blosc dcpl of
             None \<Rightarrow> Inr (- 1, dcpl)
           | Some old \<Rightarrow> Inr (0, dcpl\<lparr>filter_blosc := Some (fl, take (unat nelements) vals)\<rparr>))"

section \<open>\<open>blosc_set_local\<close>\<close>

text \<open>
  The loop \<open>for (i=0; i<ndims; i++) bufsize *= chunkdims[i];\<close> with \<open>bufsize\<close> an
  \<open>unsigned int\<close> and the extents \<open>hsize_t\<close>: each product is taken in 64 bits and
  stored back into 32.
\<close>

fun chunk_bufsize :: "uint \<Rightarrow> hsize_t list \<Rightarrow> uint" where
  "chunk_bufsize bufsize [] = bufsize"
| "chunk_bufsize bufsize (d # ds) = chunk_bufsize (ucast ((ucast bufsize :: hsize_t) * d)) ds"

text \<open>
  The base type size of lines 208 to 221: one \<open>H5Tget_super\<close> when the class is
  \<open>H5T_ARRAY\<close>, the type's own size otherwise. \<open>H5Tget_size\<close> of a handle that is
  not a datatype is 0.
\<close>

definition base_typesize :: "h5type \<Rightarrow> uint \<Rightarrow> uint" where
  "base_typesize type typesize =
     (if H5Tget_class type = H5T_ARRAY then
        (case H5Tget_super type of
           Some super_type \<Rightarrow> of_nat (H5Tget_size super_type)
         | None \<Rightarrow> 0)
      else typesize)"

text \<open>Line 226: \<open>if (basetypesize > BLOSC_MAX_TYPESIZE) basetypesize = 1;\<close>.\<close>

definition limit_typesize :: "blosc_macros \<Rightarrow> uint \<Rightarrow> uint" where
  "limit_typesize m basetypesize =
     (if basetypesize > BLOSC_MAX_TYPESIZE m then 1 else basetypesize)"

text \<open>
  The setup function. The eight-slot array \<open>values\<close> starts as zeros; the result is
  the return value, the property list and the errors pushed. The argument \<open>space\<close>
  is not used.
\<close>

definition blosc_set_local ::
  "blosc_macros \<Rightarrow> dcpl_t \<Rightarrow> h5type \<Rightarrow> nat \<Rightarrow>
     undefined_behaviour + (int \<times> dcpl_t \<times> h5_error list)" where
  "blosc_set_local m dcpl type space =
     (case H5Pget_filter_by_id dcpl [0, 0, 0, 0, 0, 0, 0, 0] of
        None \<Rightarrow> Inr (- 1, dcpl, [])
      | Some (flags, nelements0, values0) \<Rightarrow>
          let nelements = (if nelements0 < 4 then 4 else nelements0);
              values1 = values0[0 := FILTER_BLOSC_VERSION m, 1 := BLOSC_VERSION_FORMAT m];
              ndims = fst (H5Pget_chunk dcpl 32);
              chunkdims = snd (H5Pget_chunk dcpl 32)
          in if ndims < 0 then Inr (- 1, dcpl, [])
             else if ndims > 32 then
               Inr (- 1, dcpl, [(''blosc_set_local'', H5E_CALLBACK, ''Chunk rank exceeds limit'')])
             else
               let typesize = (of_nat (H5Tget_size type) :: uint)
               in if typesize = 0 then Inr (- 1, dcpl, [])
                  else
                    let basetypesize = limit_typesize m (base_typesize type typesize);
                        values2 = values1[2 := basetypesize];
                        bufsize = chunk_bufsize typesize (take (nat ndims) chunkdims);
                        values3 = values2[3 := bufsize]
                    in (case H5Pmodify_filter dcpl flags nelements values3 of
                          Inl e \<Rightarrow> Inl e
                        | Inr (r, dcpl') \<Rightarrow>
                            if r < 0 then Inr (- 1, dcpl, []) else Inr (1, dcpl', [])))"

section \<open>The heap and the codec that \<open>blosc_filter\<close> works with\<close>

text \<open>
  The heap is a list of blocks; an address is an index into it, a freed block is
  \<open>None\<close>, the null pointer is \<open>None\<close> as a pointer. \<open>malloc\<close> appends a block, so
  that its address is new. Whether it succeeds is the allocator's choice, a parameter.
  The contents of a fresh block are indeterminate in C and taken as zeros.
\<close>

type_synonym heap = "byte list option list"
type_synonym ptr = "nat option"

definition live :: "heap \<Rightarrow> nat \<Rightarrow> bool" where
  "live h a = (a < length h \<and> h ! a \<noteq> None)"

definition load :: "heap \<Rightarrow> ptr \<Rightarrow> undefined_behaviour + byte list" where
  "load h p =
     (case p of
        None \<Rightarrow> Inl Invalid_pointer
      | Some a \<Rightarrow>
          if a < length h then (case h ! a of None \<Rightarrow> Inl Invalid_pointer | Some bs \<Rightarrow> Inr bs)
          else Inl Invalid_pointer)"

text \<open>Writing \<open>bs\<close> at the start of the block at \<open>p\<close>.\<close>

definition store :: "heap \<Rightarrow> ptr \<Rightarrow> byte list \<Rightarrow> undefined_behaviour + heap" where
  "store h p bs =
     (case load h p of
        Inl e \<Rightarrow> Inl e
      | Inr old \<Rightarrow>
          if length old < length bs then Inl Write_past_block
          else Inr (h[the p := Some (bs @ drop (length bs) old)]))"

text \<open>\<open>free(NULL)\<close> does nothing; freeing what is not a live block is undefined.\<close>

definition free :: "heap \<Rightarrow> ptr \<Rightarrow> undefined_behaviour + heap" where
  "free h p =
     (case p of
        None \<Rightarrow> Inr h
      | Some a \<Rightarrow> if live h a then Inr (h[a := None]) else Inl Invalid_pointer)"

text \<open>
  What the filter does to the outside, in order: errors pushed, allocator calls and
  codec calls with their arguments and, last, what came back.
\<close>

datatype event =
    Push_err string h5e_minor string
  | Malloc size_t ptr
  | Free ptr
  | Blosc_compress cint cint size_t size_t ptr ptr size_t cint
  | Blosc_compress_ctx cint cint size_t size_t ptr ptr size_t "string option" size_t cint cint
  | Blosc_cbuffer_sizes ptr size_t
  | Blosc_decompress ptr ptr size_t cint
  | Blosc_decompress_ctx ptr ptr size_t cint cint

text \<open>
  The build configuration and the libraries: the version macros the preprocessor tests,
  the flag bit of \<open>H5Zpublic.h\<close>, and the Blosc calls as functions of their arguments
  and of the bytes at \<open>src\<close>, giving the status and the bytes written at \<open>dest\<close>.
  \<open>blosc_compcode_to_compname\<close> takes the old value of \<open>*compname\<close> and gives the
  return code and the new value.
\<close>

record blosc_lib =
  H5Epush_vers :: nat
  BLOSC_VERSION_MAJOR :: nat
  BLOSC_VERSION_MINOR :: nat
  H5Z_FLAG_REVERSE :: uint
  blosc_list_compressors :: string
  blosc_compcode_to_compname :: "cint \<Rightarrow> string option \<Rightarrow> cint \<times> string option"
  blosc_compress ::
    "cint \<Rightarrow> cint \<Rightarrow> size_t \<Rightarrow> size_t \<Rightarrow> byte list \<Rightarrow> size_t \<Rightarrow> cint \<times> byte list"
  blosc_compress_ctx ::
    "cint \<Rightarrow> cint \<Rightarrow> size_t \<Rightarrow> size_t \<Rightarrow> byte list \<Rightarrow> size_t \<Rightarrow> string option \<Rightarrow> size_t \<Rightarrow> cint
       \<Rightarrow> cint \<times> byte list"
  blosc_cbuffer_sizes :: "byte list \<Rightarrow> size_t"
  blosc_decompress :: "byte list \<Rightarrow> size_t \<Rightarrow> cint \<times> byte list"
  blosc_decompress_ctx :: "byte list \<Rightarrow> size_t \<Rightarrow> cint \<Rightarrow> cint \<times> byte list"
  malloc_succeeds :: "heap \<Rightarrow> size_t \<Rightarrow> bool"

definition malloc :: "blosc_lib \<Rightarrow> heap \<Rightarrow> size_t \<Rightarrow> ptr \<times> heap" where
  "malloc lib h n =
     (if malloc_succeeds lib h n then (Some (length h), h @ [Some (replicate (unat n) 0)])
      else (None, h))"

section \<open>\<open>blosc_filter\<close>\<close>

definition bind_ub ::
  "undefined_behaviour + 'a \<Rightarrow> ('a \<Rightarrow> undefined_behaviour + 'b) \<Rightarrow> undefined_behaviour + 'b" where
  "bind_ub x f = (case x of Inl e \<Rightarrow> Inl e | Inr v \<Rightarrow> f v)"

text \<open>\<open>cd_values[i]\<close>: the array has the length the caller gave it.\<close>

definition slot :: "uint list \<Rightarrow> nat \<Rightarrow> undefined_behaviour + uint" where
  "slot cd_values i =
     (if i < length cd_values then Inr (cd_values ! i) else Inl (Read_past_array i))"

text \<open>The local variables that are set before the direction is looked at.\<close>

record locals =
  typesize :: size_t
  outbuf_size :: size_t
  clevel :: cint
  doshuffle :: cint
  compname :: "string option"

text \<open>What \<open>%s\<close> prints; for a null pointer the C library prints \<open>(null)\<close>.\<close>

definition percent_s :: "string option \<Rightarrow> string" where
  "percent_s s = (case s of None \<Rightarrow> ''(null)'' | Some t \<Rightarrow> t)"

definition unsupported_msg :: "string option \<Rightarrow> string \<Rightarrow> string" where
  "unsupported_msg name complist =
     ''this Blosc library does not have support for the '' @ [CHR 0x27] @ percent_s name
       @ [CHR 0x27] @ '' compressor, but only for: '' @ complist"

text \<open>
  Lines 264 to 293. The result is the locals, the events so far and whether
  \<open>goto failed\<close> was taken. With \<open>H5Epush_vers == 2\<close> the preprocessor keeps the
  \<open>PUSH_ERR\<close> with the format string and drops the \<open>#else\<close> branch, the one that
  holds \<open>goto failed\<close>. The other branch prints into \<open>errmsg[256]\<close> first.
\<close>

definition decode_params ::
  "blosc_lib \<Rightarrow> size_t \<Rightarrow> uint list \<Rightarrow> undefined_behaviour + (locals \<times> event list \<times> bool)" where
  "decode_params lib cd_nelmts cd_values =
     bind_ub (slot cd_values 2) (\<lambda>v2.
     bind_ub (slot cd_values 3) (\<lambda>v3.
     bind_ub (let L = \<lparr>typesize = ucast v2, outbuf_size = ucast v3, clevel = 5, doshuffle = 1,
                         compname = Some ''blosclz''\<rparr>
              in if cd_nelmts \<ge> 5 then bind_ub (slot cd_values 4) (\<lambda>v4. Inr (L\<lparr>clevel := v4\<rparr>))
                 else Inr L) (\<lambda>L.
     bind_ub (if cd_nelmts \<ge> 6 then bind_ub (slot cd_values 5) (\<lambda>v5. Inr (L\<lparr>doshuffle := v5\<rparr>))
              else Inr L) (\<lambda>L.
       if cd_nelmts \<ge> 7 then
         bind_ub (slot cd_values 6) (\<lambda>compcode.
           let complist = blosc_list_compressors lib;
               code = fst (blosc_compcode_to_compname lib compcode (compname L));
               L' = L\<lparr>compname := snd (blosc_compcode_to_compname lib compcode (compname L))\<rparr>;
               msg = unsupported_msg (compname L') complist
           in if code = - 1 then
                if H5Epush_vers lib = 2 then
                  Inr (L', [Push_err ''blosc_filter'' H5E_CALLBACK msg], False)
                else if length msg + 1 > 256 then Inl (Write_past_array 256)
                else Inr (L', [Push_err ''blosc_filter'' H5E_CALLBACK msg], True)
              else Inr (L', [], False))
       else Inr (L, [], False)))))"

text \<open>What a call gives back: the return value, \<open>*buf\<close>, \<open>*buf_size\<close>, the heap, the events.\<close>

record filter_result =
  retval :: size_t
  buf_out :: ptr
  buf_size_out :: size_t
  heap_out :: heap
  trace :: "event list"

text \<open>The label \<open>failed\<close>: \<open>free(outbuf); return 0;\<close>.\<close>

definition failed ::
  "ptr \<Rightarrow> size_t \<Rightarrow> ptr \<Rightarrow> heap \<Rightarrow> event list \<Rightarrow> undefined_behaviour + filter_result" where
  "failed outbuf buf_size buf h tr =
     bind_ub (free h outbuf) (\<lambda>h'.
       Inr \<lparr>retval = 0, buf_out = buf, buf_size_out = buf_size, heap_out = h',
            trace = tr @ [Free outbuf]\<rparr>)"

text \<open>
  Lines 378 to 387. \<open>return status\<close> converts the \<open>int\<close> to \<open>size_t\<close>, which extends
  the sign.
\<close>

definition finish ::
  "cint \<Rightarrow> ptr \<Rightarrow> size_t \<Rightarrow> size_t \<Rightarrow> ptr \<Rightarrow> heap \<Rightarrow> event list
     \<Rightarrow> undefined_behaviour + filter_result" where
  "finish status outbuf outbuf_sz buf_size buf h tr =
     (if status \<noteq> 0 then
        bind_ub (free h buf) (\<lambda>h'.
          Inr \<lparr>retval = scast status, buf_out = outbuf, buf_size_out = outbuf_sz,
               heap_out = h', trace = tr @ [Free buf]\<rparr>)
      else failed outbuf buf_size buf h tr)"

text \<open>
  \<open>#if ( (BLOSC_VERSION_MAJOR <= 1) && (BLOSC_VERSION_MINOR < 5) )\<close> chooses the calls
  without a context.
\<close>

definition before_1_5 :: "blosc_lib \<Rightarrow> bool" where
  "before_1_5 lib = (BLOSC_VERSION_MAJOR lib \<le> 1 \<and> BLOSC_VERSION_MINOR lib < 5)"

text \<open>
  Lines 296 to 332. The codec reads the block at \<open>*buf\<close> and writes at most
  \<open>destsize\<close> bytes, which is \<open>nbytes\<close> here, at \<open>outbuf\<close>. The caller's
  pointer is a pointer into the heap as it is on entry: it cannot name the block that
  \<open>malloc\<close> has just made.
\<close>

definition compress_call ::
  "blosc_lib \<Rightarrow> locals \<Rightarrow> size_t \<Rightarrow> byte list \<Rightarrow> ptr \<Rightarrow> ptr \<Rightarrow> (cint \<times> byte list) \<times> event" where
  "compress_call lib L nbytes src buf outbuf =
     (if before_1_5 lib then
        let r = blosc_compress lib (clevel L) (doshuffle L) (typesize L) nbytes src nbytes
        in (r, Blosc_compress (clevel L) (doshuffle L) (typesize L) nbytes buf outbuf nbytes (fst r))
      else
        let r = blosc_compress_ctx lib (clevel L) (doshuffle L) (typesize L) nbytes src nbytes
                  (compname L) 0 1
        in (r, Blosc_compress_ctx (clevel L) (doshuffle L) (typesize L) nbytes buf outbuf nbytes
                 (compname L) 0 1 (fst r)))"

definition compressing ::
  "blosc_lib \<Rightarrow> locals \<Rightarrow> size_t \<Rightarrow> size_t \<Rightarrow> ptr \<Rightarrow> heap \<Rightarrow> event list
     \<Rightarrow> undefined_behaviour + filter_result" where
  "compressing lib L nbytes buf_size buf h tr =
     (let L = L\<lparr>outbuf_size := buf_size\<rparr>;
          outbuf = fst (malloc lib h (outbuf_size L));
          h1 = snd (malloc lib h (outbuf_size L));
          tr1 = tr @ [Malloc (outbuf_size L) outbuf]
      in if outbuf = None then
           failed outbuf buf_size buf h1
             (tr1 @ [Push_err ''blosc_filter'' H5E_CALLBACK ''Can't allocate compression buffer''])
         else
           bind_ub (load h buf) (\<lambda>src.
             let r = fst (compress_call lib L nbytes src buf outbuf);
                 status = fst r;
                 tr2 = tr1 @ [snd (compress_call lib L nbytes src buf outbuf)]
             in bind_ub (store h1 outbuf (take (unat nbytes) (snd r))) (\<lambda>h2.
                  if sint status < 0 then
                    failed outbuf buf_size buf h2
                      (tr2 @ [Push_err ''blosc_filter'' H5E_CALLBACK ''Blosc compression error''])
                  else finish status outbuf (outbuf_size L) buf_size buf h2 tr2)))"

text \<open>
  Lines 335 to 376. \<open>outbuf\<close> is still null at the first \<open>free\<close>. The size for the
  allocation is the one \<open>blosc_cbuffer_sizes\<close> reads from the block at \<open>*buf\<close>.
\<close>

definition decompress_call ::
  "blosc_lib \<Rightarrow> byte list \<Rightarrow> ptr \<Rightarrow> ptr \<Rightarrow> size_t \<Rightarrow> (cint \<times> byte list) \<times> event" where
  "decompress_call lib src buf outbuf destsize =
     (if before_1_5 lib then
        let r = blosc_decompress lib src destsize
        in (r, Blosc_decompress buf outbuf destsize (fst r))
      else
        let r = blosc_decompress_ctx lib src destsize 1
        in (r, Blosc_decompress_ctx buf outbuf destsize 1 (fst r)))"

definition decompressing ::
  "blosc_lib \<Rightarrow> locals \<Rightarrow> size_t \<Rightarrow> size_t \<Rightarrow> ptr \<Rightarrow> heap \<Rightarrow> event list
     \<Rightarrow> undefined_behaviour + filter_result" where
  "decompressing lib L nbytes buf_size buf h tr =
     bind_ub (free h None) (\<lambda>h0.
     bind_ub (load h0 buf) (\<lambda>src.
       let L = L\<lparr>outbuf_size := blosc_cbuffer_sizes lib src\<rparr>;
           tr0 = tr @ [Free None, Blosc_cbuffer_sizes buf (outbuf_size L)];
           outbuf = fst (malloc lib h0 (outbuf_size L));
           h1 = snd (malloc lib h0 (outbuf_size L));
           tr1 = tr0 @ [Malloc (outbuf_size L) outbuf]
       in if outbuf = None then
            failed outbuf buf_size buf h1
              (tr1 @ [Push_err ''blosc_filter'' H5E_CALLBACK ''Can't allocate decompression buffer''])
          else
            let r = fst (decompress_call lib src buf outbuf (outbuf_size L));
                status = fst r;
                tr2 = tr1 @ [snd (decompress_call lib src buf outbuf (outbuf_size L))]
            in bind_ub (store h1 outbuf (take (unat (outbuf_size L)) (snd r))) (\<lambda>h2.
                 if sint status \<le> 0 then
                   failed outbuf buf_size buf h2
                     (tr2 @ [Push_err ''blosc_filter'' H5E_CALLBACK ''Blosc decompression error''])
                 else finish status outbuf (outbuf_size L) buf_size buf h2 tr2)))"

text \<open>
  The filter function: \<open>flags\<close>, \<open>cd_nelmts\<close>, \<open>cd_values\<close>, \<open>nbytes\<close>, then
  \<open>*buf_size\<close> and \<open>*buf\<close> as they are on entry, and the heap.
\<close>

definition blosc_filter ::
  "blosc_lib \<Rightarrow> uint \<Rightarrow> size_t \<Rightarrow> uint list \<Rightarrow> size_t \<Rightarrow> size_t \<Rightarrow> ptr \<Rightarrow> heap
     \<Rightarrow> undefined_behaviour + filter_result" where
  "blosc_filter lib flags cd_nelmts cd_values nbytes buf_size buf h =
     bind_ub (decode_params lib cd_nelmts cd_values) (\<lambda>(L, tr, goto_failed).
       if goto_failed then failed None buf_size buf h tr
       else if flags AND H5Z_FLAG_REVERSE lib = 0 then compressing lib L nbytes buf_size buf h tr
       else decompressing lib L nbytes buf_size buf h tr)"

section \<open>What the codec answers\<close>

text \<open>
  The status and the bytes that the codec gives back for the compressing call of lines
  318 to 328 and for the decompressing call of lines 361 to 369, as functions of the
  library, the locals and the bytes at \<open>*buf\<close>. They say what the codec does, whatever
  the filter makes of it.
\<close>

definition compress_answer :: "blosc_lib \<Rightarrow> locals \<Rightarrow> size_t \<Rightarrow> byte list \<Rightarrow> cint \<times> byte list" where
  "compress_answer lib L nbytes src =
     (if BLOSC_VERSION_MAJOR lib \<le> 1 \<and> BLOSC_VERSION_MINOR lib < 5 then
        blosc_compress lib (clevel L) (doshuffle L) (typesize L) nbytes src nbytes
      else
        blosc_compress_ctx lib (clevel L) (doshuffle L) (typesize L) nbytes src nbytes
          (compname L) 0 1)"

definition decompress_answer :: "blosc_lib \<Rightarrow> byte list \<Rightarrow> size_t \<Rightarrow> cint \<times> byte list" where
  "decompress_answer lib src destsize =
     (if BLOSC_VERSION_MAJOR lib \<le> 1 \<and> BLOSC_VERSION_MINOR lib < 5 then
        blosc_decompress lib src destsize
      else blosc_decompress_ctx lib src destsize 1)"

section \<open>Reading a trace\<close>

text \<open>The status a compressing or decompressing codec call came back with.\<close>

fun compress_status :: "event \<Rightarrow> cint option" where
  "compress_status (Blosc_compress cl sh ts n src dest destsize st) = Some st"
| "compress_status (Blosc_compress_ctx cl sh ts n src dest destsize name bl th st) = Some st"
| "compress_status e = None"

fun decompress_status :: "event \<Rightarrow> cint option" where
  "decompress_status (Blosc_decompress src dest destsize st) = Some st"
| "decompress_status (Blosc_decompress_ctx src dest destsize th st) = Some st"
| "decompress_status e = None"

definition codec_status :: "event \<Rightarrow> cint option" where
  "codec_status e = (case compress_status e of Some st \<Rightarrow> Some st | None \<Rightarrow> decompress_status e)"

text \<open>The size of the destination that a codec call was given as its limit.\<close>

fun dest_limit :: "event \<Rightarrow> size_t option" where
  "dest_limit (Blosc_compress cl sh ts n src dest destsize st) = Some destsize"
| "dest_limit (Blosc_compress_ctx cl sh ts n src dest destsize name bl th st) = Some destsize"
| "dest_limit (Blosc_decompress src dest destsize st) = Some destsize"
| "dest_limit (Blosc_decompress_ctx src dest destsize th st) = Some destsize"
| "dest_limit e = None"

text \<open>
  The level, the shuffle flag and, where the call takes one, the compressor name that a
  compressing codec call was given.
\<close>

fun compress_args :: "event \<Rightarrow> (cint \<times> cint \<times> string option option) option" where
  "compress_args (Blosc_compress cl sh ts n src dest destsize st) = Some (cl, sh, None)"
| "compress_args (Blosc_compress_ctx cl sh ts n src dest destsize name bl th st)
     = Some (cl, sh, Some name)"
| "compress_args e = None"

fun malloc_size :: "event \<Rightarrow> size_t option" where
  "malloc_size (Malloc n p) = Some n"
| "malloc_size e = None"

fun alloc_of :: "event \<Rightarrow> nat option" where
  "alloc_of (Malloc n (Some a)) = Some a"
| "alloc_of e = None"

fun free_of :: "event \<Rightarrow> nat option" where
  "free_of (Free (Some a)) = Some a"
| "free_of e = None"

fun is_push_err :: "event \<Rightarrow> bool" where
  "is_push_err (Push_err func minor msg) = True"
| "is_push_err e = False"

text \<open>The blocks allocated and the blocks freed during a call, in order.\<close>

definition allocated :: "event list \<Rightarrow> nat list" where
  "allocated tr = List.map_filter alloc_of tr"

definition freed :: "event list \<Rightarrow> nat list" where
  "freed tr = List.map_filter free_of tr"

text \<open>The statuses of the codec calls of a trace; a call of the filter makes at most one.\<close>

definition statuses :: "event list \<Rightarrow> cint list" where
  "statuses tr = List.map_filter codec_status tr"

text \<open>
  The three ways to the label \<open>failed\<close> with an error: \<open>malloc\<close> gave null, the
  compressing codec gave a negative status, the decompressing codec gave a status that
  is not positive.
\<close>

fun malloc_failed :: "event \<Rightarrow> bool" where
  "malloc_failed (Malloc n None) = True"
| "malloc_failed e = False"

definition failure_event :: "event \<Rightarrow> bool" where
  "failure_event e =
     (malloc_failed e
      \<or> (case compress_status e of Some st \<Rightarrow> sint st < 0 | None \<Rightarrow> False)
      \<or> (case decompress_status e of Some st \<Rightarrow> sint st \<le> 0 | None \<Rightarrow> False))"

section \<open>Libraries for running examples\<close>

text \<open>
  A build configuration with a stand-in codec: two compressors in the registry, a codec
  whose calls come back with a chosen status and copy that many bytes, a header that
  holds the uncompressed size in its fifth byte, an allocator that succeeds or not.
\<close>

definition test_lib :: "nat \<Rightarrow> nat \<Rightarrow> cint \<Rightarrow> cint \<Rightarrow> bool \<Rightarrow> blosc_lib" where
  "test_lib epush_vers minor cstatus dstatus alloc =
     \<lparr>H5Epush_vers = epush_vers,
      BLOSC_VERSION_MAJOR = 1,
      BLOSC_VERSION_MINOR = minor,
      H5Z_FLAG_REVERSE = 0x100,
      blosc_list_compressors = ''blosclz,lz4'',
      blosc_compcode_to_compname =
        (\<lambda>compcode old. if compcode = 0 then (0, Some ''blosclz'')
                         else if compcode = 1 then (1, Some ''lz4'')
                         else (- 1, None)),
      blosc_compress = (\<lambda>cl sh ts n src destsize. (cstatus, take (nat (sint cstatus)) src)),
      blosc_compress_ctx =
        (\<lambda>cl sh ts n src destsize name bl th. (cstatus, take (nat (sint cstatus)) src)),
      blosc_cbuffer_sizes = (\<lambda>src. if 4 < length src then ucast (src ! 4) else 0),
      blosc_decompress = (\<lambda>src destsize. (dstatus, take (nat (sint dstatus)) src)),
      blosc_decompress_ctx = (\<lambda>src destsize th. (dstatus, take (nat (sint dstatus)) src)),
      malloc_succeeds = (\<lambda>h n. alloc)\<rparr>"

section \<open>Properties of \<open>blosc_set_local\<close>\<close>

lemma unat_chunk_bufsize:
  "unat (chunk_bufsize b ds) = (unat b * prod_list (map unat ds)) mod 2 ^ 32"
proof (induction ds arbitrary: b)
  case Nil
  have "unat b < 2 ^ 32" using unsigned_less [of b, where 'a = nat] by simp
  then show ?case by simp
next
  case (Cons d ds)
  have step: "unat (ucast ((ucast b :: hsize_t) * d) :: uint) = (unat b * unat d) mod 2 ^ 32"
  proof -
    have "unat (ucast ((ucast b :: hsize_t) * d) :: uint)
            = unat ((ucast b :: hsize_t) * d) mod 2 ^ 32"
      by (simp add: unsigned_ucast_eq take_bit_eq_mod)
    also have "\<dots> = ((unat b * unat d) mod 2 ^ 64) mod 2 ^ 32"
    proof -
      have "unat b < 2 ^ 32" using unsigned_less [of b, where 'a = nat] by simp
      then have "unat b < 2 ^ 64" by simp
      then have "unat (ucast b :: hsize_t) = unat b"
        by (simp add: unsigned_ucast_eq take_bit_nat_eq_self)
      then show ?thesis by (simp add: unat_word_ariths)
    qed
    also have "\<dots> = (unat b * unat d) mod 2 ^ 32"
      by (rule mod_mod_cancel) simp
    finally show ?thesis .
  qed
  have "unat (chunk_bufsize b (d # ds))
          = ((unat b * unat d) mod 2 ^ 32 * prod_list (map unat ds)) mod 2 ^ 32"
    by (simp add: Cons.IH step)
  also have "\<dots> = (unat b * unat d * prod_list (map unat ds)) mod 2 ^ 32"
    by (simp add: mod_mult_left_eq)
  finally show ?case by (simp add: mult.assoc)
qed

lemma get_filter_length:
  "H5Pget_filter_by_id dcpl vals = Some (fl, n, vs) \<Longrightarrow> length vs = length vals"
  by (auto simp: H5Pget_filter_by_id_def Let_def split: option.splits)

lemma get_chunk_Some:
  "0 \<le> fst (H5Pget_chunk dcpl k) \<Longrightarrow>
     \<exists>ds. chunk_dims dcpl = Some ds \<and> fst (H5Pget_chunk dcpl k) = int (length ds)
        \<and> snd (H5Pget_chunk dcpl k) = take k ds"
  by (auto simp: H5Pget_chunk_def split: option.splits)

lemma modify_filter_Inr:
  assumes "H5Pmodify_filter dcpl fl n vals = Inr (r, dcpl')" and "\<not> r < 0"
  shows "filter_blosc dcpl' = Some (fl, take (unat n) vals) \<and> unat n \<le> length vals"
  using assms by (auto simp: H5Pmodify_filter_def split: if_splits option.splits)

lemma nelements_ge4: "4 \<le> unat (if (n :: size_t) < 4 then 4 else n)"
  by (auto simp: word_less_nat_alt)

text \<open>What a successful call leaves in the property list.\<close>

lemma blosc_set_local_stored:
  assumes ok: "blosc_set_local m dcpl type space = Inr (1, dcpl', errs)"
  shows "\<exists>fl vals ds. filter_blosc dcpl' = Some (fl, vals) \<and> chunk_dims dcpl = Some ds
            \<and> 4 \<le> length vals
            \<and> vals ! 2 = limit_typesize m (base_typesize type (of_nat (H5Tget_size type)))
            \<and> vals ! 3 = chunk_bufsize (of_nat (H5Tget_size type)) ds"
proof -
  obtain flags n0 values0 where
    gf: "H5Pget_filter_by_id dcpl [0, 0, 0, 0, 0, 0, 0, 0] = Some (flags, n0, values0)"
    using ok by (auto simp: blosc_set_local_def split: option.splits)
  have len0: "length values0 = 8"
    using get_filter_length [OF gf] by simp
  define nelements where "nelements = (if n0 < 4 then 4 else n0)"
  define ndims where "ndims = fst (H5Pget_chunk dcpl 32)"
  have nd: "0 \<le> ndims" "ndims \<le> 32"
    using ok gf by (auto simp: blosc_set_local_def Let_def ndims_def split: if_splits)
  obtain ds where ds: "chunk_dims dcpl = Some ds" "ndims = int (length ds)"
    "snd (H5Pget_chunk dcpl 32) = take 32 ds"
    using get_chunk_Some [of dcpl 32] nd(1) by (auto simp: ndims_def)
  have taken: "take (nat ndims) (take 32 ds) = ds"
    using nd(2) ds(2) by simp
  define values3 where
    "values3 = values0[0 := FILTER_BLOSC_VERSION m, 1 := BLOSC_VERSION_FORMAT m,
        2 := limit_typesize m (base_typesize type (of_nat (H5Tget_size type))),
        3 := chunk_bufsize (of_nat (H5Tget_size type)) ds]"
  obtain r where md: "H5Pmodify_filter dcpl flags nelements values3 = Inr (r, dcpl')" "\<not> r < 0"
    using ok gf nd ds taken
    by (auto simp: blosc_set_local_def Let_def ndims_def nelements_def values3_def
          split: if_splits sum.splits)
  have st: "filter_blosc dcpl' = Some (flags, take (unat nelements) values3)"
    "unat nelements \<le> length values3"
    using modify_filter_Inr [OF md] by simp_all
  have n4: "4 \<le> unat nelements"
    unfolding nelements_def by (rule nelements_ge4)
  have "take (unat nelements) values3 ! 2 = values3 ! 2"
    "take (unat nelements) values3 ! 3 = values3 ! 3"
    using n4 by simp_all
  moreover have "values3 ! 2 = limit_typesize m (base_typesize type (of_nat (H5Tget_size type)))"
    "values3 ! 3 = chunk_bufsize (of_nat (H5Tget_size type)) ds"
    by (simp_all add: values3_def len0)
  moreover have "4 \<le> length (take (unat nelements) values3)"
    using n4 st(2) by simp
  ultimately show ?thesis using st(1) ds(1) by simp
qed

lemma base_typesize_cases:
  "base_typesize type (of_nat (H5Tget_size type)) =
     (case type of Plain c n \<Rightarrow> of_nat n | ArrayOf base ds \<Rightarrow> of_nat (H5Tget_size base))"
  by (cases type) (simp_all add: base_typesize_def)

text \<open>
  C7, as amended. After a successful \<open>blosc_set_local\<close>, slot 2 of the stored array is
  the size, as an \<open>unsigned int\<close>, of the type itself when it is not an array type and
  of its immediate base type when it is (one \<open>H5Tget_super\<close>, whatever that base type
  is); when that size is above \<open>BLOSC_MAX_TYPESIZE\<close>, slot 2 is 1, for plain and for
  array types alike.
\<close>

theorem blosc_set_local_slot2:
  assumes "blosc_set_local m dcpl type space = Inr (1, dcpl', errs)"
  shows "\<exists>fl vals. filter_blosc dcpl' = Some (fl, vals) \<and> 2 < length vals \<and>
           vals ! 2 =
             (let base = (case type of Plain c n \<Rightarrow> of_nat n
                                     | ArrayOf super_type ds \<Rightarrow> of_nat (H5Tget_size super_type))
              in if base > BLOSC_MAX_TYPESIZE m then 1 else base)"
proof -
  obtain fl vals where st: "filter_blosc dcpl' = Some (fl, vals)" "4 \<le> length vals"
    "vals ! 2 = limit_typesize m (base_typesize type (of_nat (H5Tget_size type)))"
    using blosc_set_local_stored [OF assms] by blast
  have "2 < length vals" using st(2) by simp
  then show ?thesis
    using st(1) st(3) by (simp add: limit_typesize_def base_typesize_cases Let_def)
qed

text \<open>
  An array of two opaque elements of 300 bytes, in chunks of 10 by 10: the base size 300
  is above 255 and slot 2 becomes 1.
\<close>

theorem blosc_set_local_slot2_witness:
  "blosc_set_local \<lparr>FILTER_BLOSC_VERSION = 2, BLOSC_VERSION_FORMAT = 2, BLOSC_MAX_TYPESIZE = 255\<rparr>
     \<lparr>filter_blosc = Some (1, []), chunk_dims = Some [10, 10]\<rparr>
     (ArrayOf (Plain OPAQUE 300) [2]) 0
   = Inr (1, \<lparr>filter_blosc = Some (1, [2, 2, 1, 60000]), chunk_dims = Some [10, 10]\<rparr>, [])
   \<and> (\<exists>fl vals. Some (1 :: uint, [2, 2, 1, 60000 :: uint]) = Some (fl, vals) \<and> 2 < length vals
          \<and> vals ! 2 = 1)"
proof -
  have run: "blosc_set_local \<lparr>FILTER_BLOSC_VERSION = 2, BLOSC_VERSION_FORMAT = 2, BLOSC_MAX_TYPESIZE = 255\<rparr>
     \<lparr>filter_blosc = Some (1, []), chunk_dims = Some [10, 10]\<rparr>
     (ArrayOf (Plain OPAQUE 300) [2]) 0
   = Inr (1, \<lparr>filter_blosc = Some (1, [2, 2, 1, 60000]), chunk_dims = Some [10, 10]\<rparr>, [])"
    by (simp add: blosc_set_local_def H5Pget_filter_by_id_def H5Pget_chunk_def
          H5Pmodify_filter_def base_typesize_def limit_typesize_def Let_def)
  show ?thesis
    using run blosc_set_local_slot2 [OF run] by simp
qed

text \<open>
  C7 with the innermost scalar in place of the immediate base type fails on an array
  of arrays: for two rows of three 4-byte integers the immediate base type is the
  inner array, 12 bytes, and 12 is stored, while the innermost scalar has 4 bytes.
\<close>

theorem blosc_set_local_slot2_innermost_counterexample:
  "blosc_set_local \<lparr>FILTER_BLOSC_VERSION = 2, BLOSC_VERSION_FORMAT = 2, BLOSC_MAX_TYPESIZE = 255\<rparr>
     \<lparr>filter_blosc = Some (1, []), chunk_dims = Some [10, 10]\<rparr>
     (ArrayOf (ArrayOf (Plain INTEGER 4) [3]) [2]) 0
   = Inr (1, \<lparr>filter_blosc = Some (1, [2, 2, 12, 2400]), chunk_dims = Some [10, 10]\<rparr>, [])
   \<and> H5Tget_size (innermost_scalar (ArrayOf (ArrayOf (Plain INTEGER 4) [3]) [2])) = 4"
  by (simp add: blosc_set_local_def H5Pget_filter_by_id_def H5Pget_chunk_def
        H5Pmodify_filter_def base_typesize_def limit_typesize_def Let_def)

text \<open>
  C8, as amended. After a successful \<open>blosc_set_local\<close>, slot 3 of the stored array is
  the size of the element type times the product of the chunk extents, reduced modulo
  \<open>2 ^ 32\<close>: the slot is an \<open>unsigned int\<close>.
\<close>

theorem blosc_set_local_slot3:
  assumes "blosc_set_local m dcpl type space = Inr (1, dcpl', errs)"
  shows "\<exists>fl vals ds. filter_blosc dcpl' = Some (fl, vals) \<and> chunk_dims dcpl = Some ds \<and>
           3 < length vals \<and>
           unat (vals ! 3) = (H5Tget_size type * prod_list (map unat ds)) mod 2 ^ 32"
proof -
  obtain fl vals ds where st: "filter_blosc dcpl' = Some (fl, vals)" "chunk_dims dcpl = Some ds"
    "4 \<le> length vals" "vals ! 3 = chunk_bufsize (of_nat (H5Tget_size type)) ds"
    using blosc_set_local_stored [OF assms] by blast
  have "unat (vals ! 3) = (H5Tget_size type mod 2 ^ 32 * prod_list (map unat ds)) mod 2 ^ 32"
    by (simp add: st(4) unat_chunk_bufsize unat_of_nat)
  also have "\<dots> = (H5Tget_size type * prod_list (map unat ds)) mod 2 ^ 32"
    by (simp add: mod_mult_left_eq)
  finally have "unat (vals ! 3) = (H5Tget_size type * prod_list (map unat ds)) mod 2 ^ 32" .
  moreover have "3 < length vals" using st(3) by simp
  ultimately show ?thesis using st(1) st(2) by blast
qed

text \<open>The example of the specification: chunks of 10 by 10, 4-byte elements, slot 3 is 400.\<close>

theorem blosc_set_local_slot3_witness:
  "blosc_set_local \<lparr>FILTER_BLOSC_VERSION = 2, BLOSC_VERSION_FORMAT = 2, BLOSC_MAX_TYPESIZE = 255\<rparr>
     \<lparr>filter_blosc = Some (1, []), chunk_dims = Some [10, 10]\<rparr> (Plain INTEGER 4) 0
   = Inr (1, \<lparr>filter_blosc = Some (1, [2, 2, 4, 400]), chunk_dims = Some [10, 10]\<rparr>, [])
   \<and> (\<exists>fl vals ds. Some (1 :: uint, [2, 2, 4, 400 :: uint]) = Some (fl, vals)
          \<and> Some [10, 10 :: hsize_t] = Some ds \<and> 3 < length vals
          \<and> unat (vals ! 3) = (4 * prod_list (map unat ds)) mod 2 ^ 32)"
proof -
  have run: "blosc_set_local \<lparr>FILTER_BLOSC_VERSION = 2, BLOSC_VERSION_FORMAT = 2, BLOSC_MAX_TYPESIZE = 255\<rparr>
     \<lparr>filter_blosc = Some (1, []), chunk_dims = Some [10, 10]\<rparr> (Plain INTEGER 4) 0
   = Inr (1, \<lparr>filter_blosc = Some (1, [2, 2, 4, 400]), chunk_dims = Some [10, 10]\<rparr>, [])"
    by (simp add: blosc_set_local_def H5Pget_filter_by_id_def H5Pget_chunk_def
          H5Pmodify_filter_def base_typesize_def limit_typesize_def Let_def)
  show ?thesis
    using run blosc_set_local_slot3 [OF run] by simp
qed

text \<open>
  C8 without the reduction fails when the byte size of a chunk does not fit 32 bits:
  chunks of 65536 by 65536 elements of 4 bytes have \<open>2 ^ 34\<close> bytes, and slot 3 is 0.
\<close>

theorem blosc_set_local_slot3_wraps_counterexample:
  "blosc_set_local \<lparr>FILTER_BLOSC_VERSION = 2, BLOSC_VERSION_FORMAT = 2, BLOSC_MAX_TYPESIZE = 255\<rparr>
     \<lparr>filter_blosc = Some (1, []), chunk_dims = Some [65536, 65536]\<rparr> (Plain INTEGER 4) 0
   = Inr (1, \<lparr>filter_blosc = Some (1, [2, 2, 4, 0]), chunk_dims = Some [65536, 65536]\<rparr>, [])
   \<and> unat (0 :: uint) \<noteq> 4 * prod_list (map unat [65536, 65536 :: hsize_t])"
  by (simp add: blosc_set_local_def H5Pget_filter_by_id_def H5Pget_chunk_def
        H5Pmodify_filter_def base_typesize_def limit_typesize_def Let_def)

section \<open>The stages of \<open>blosc_filter\<close>\<close>

lemma load_Inr: "load h p = Inr bs \<longleftrightarrow> (\<exists>a. p = Some a \<and> a < length h \<and> h ! a = Some bs)"
  by (auto simp: load_def split: option.splits)

lemma failed_null [simp]:
  "failed None buf_size buf h tr =
     Inr \<lparr>retval = 0, buf_out = buf, buf_size_out = buf_size, heap_out = h, trace = tr @ [Free None]\<rparr>"
  by (simp add: failed_def free_def bind_ub_def)

lemma failed_fresh [simp]:
  "failed (Some (length h)) buf_size buf (h @ [Some blk]) tr =
     Inr \<lparr>retval = 0, buf_out = buf, buf_size_out = buf_size, heap_out = h @ [None],
          trace = tr @ [Free (Some (length h))]\<rparr>"
  by (simp add: failed_def free_def bind_ub_def live_def)

lemma store_fresh:
  "store (h @ [Some old]) (Some (length h)) bs =
     (if length old < length bs then Inl Write_past_block
      else Inr (h @ [Some (bs @ drop (length bs) old)]))"
  by (simp add: store_def load_def)

lemma finish_fresh:
  assumes "load h buf = Inr src"
  shows "finish status (Some (length h)) n buf_size buf (h @ [Some blk]) tr =
     (if status \<noteq> 0 then
        Inr \<lparr>retval = scast status, buf_out = Some (length h), buf_size_out = n,
             heap_out = (h @ [Some blk])[the buf := None], trace = tr @ [Free buf]\<rparr>
      else Inr \<lparr>retval = 0, buf_out = buf, buf_size_out = buf_size, heap_out = h @ [None],
                trace = tr @ [Free (Some (length h))]\<rparr>)"
  using assms
  by (auto simp: finish_def free_def bind_ub_def live_def load_Inr nth_append)

text \<open>The compressing branch, with the heap operations worked out.\<close>

lemma compressing_eq:
  "compressing lib L nbytes buf_size buf h tr =
     (if \<not> malloc_succeeds lib h buf_size then
        Inr \<lparr>retval = 0, buf_out = buf, buf_size_out = buf_size, heap_out = h,
             trace = tr @ [Malloc buf_size None,
                           Push_err ''blosc_filter'' H5E_CALLBACK ''Can't allocate compression buffer'',
                           Free None]\<rparr>
      else
        (case load h buf of
           Inl e \<Rightarrow> Inl e
         | Inr src \<Rightarrow>
             let a = length h;
                 c = compress_call lib (L\<lparr>outbuf_size := buf_size\<rparr>) nbytes src buf (Some a);
                 status = fst (fst c);
                 out = take (unat nbytes) (snd (fst c));
                 blk = out @ drop (length out) (replicate (unat buf_size) 0)
             in if unat buf_size < length out then Inl Write_past_block
                else if sint status < 0 then
                  Inr \<lparr>retval = 0, buf_out = buf, buf_size_out = buf_size, heap_out = h @ [None],
                       trace = tr @ [Malloc buf_size (Some a), snd c,
                                     Push_err ''blosc_filter'' H5E_CALLBACK ''Blosc compression error'',
                                     Free (Some a)]\<rparr>
                else if status = 0 then
                  Inr \<lparr>retval = 0, buf_out = buf, buf_size_out = buf_size, heap_out = h @ [None],
                       trace = tr @ [Malloc buf_size (Some a), snd c, Free (Some a)]\<rparr>
                else
                  Inr \<lparr>retval = scast status, buf_out = Some a, buf_size_out = buf_size,
                       heap_out = (h @ [Some blk])[the buf := None],
                       trace = tr @ [Malloc buf_size (Some a), snd c, Free buf]\<rparr>))"
proof (cases "malloc_succeeds lib h buf_size")
  case False
  then show ?thesis by (simp add: compressing_def malloc_def Let_def)
next
  case True
  show ?thesis
  proof (cases "load h buf")
    case (Inl e)
    then show ?thesis using True by (simp add: compressing_def malloc_def Let_def bind_ub_def)
  next
    case (Inr src)
    then show ?thesis using True
      by (simp add: compressing_def malloc_def Let_def bind_ub_def store_fresh finish_fresh [OF Inr])
  qed
qed

text \<open>The decompressing branch, likewise. No write past the block can happen in it.\<close>

lemma decompressing_eq:
  "decompressing lib L nbytes buf_size buf h tr =
     (case load h buf of
        Inl e \<Rightarrow> Inl e
      | Inr src \<Rightarrow>
          let n = blosc_cbuffer_sizes lib src;
              tr0 = tr @ [Free None, Blosc_cbuffer_sizes buf n]
          in if \<not> malloc_succeeds lib h n then
               Inr \<lparr>retval = 0, buf_out = buf, buf_size_out = buf_size, heap_out = h,
                    trace = tr0 @ [Malloc n None,
                                   Push_err ''blosc_filter'' H5E_CALLBACK ''Can't allocate decompression buffer'',
                                   Free None]\<rparr>
             else
               let a = length h;
                   c = decompress_call lib src buf (Some a) n;
                   status = fst (fst c);
                   out = take (unat n) (snd (fst c));
                   blk = out @ drop (length out) (replicate (unat n) 0)
               in if sint status \<le> 0 then
                    Inr \<lparr>retval = 0, buf_out = buf, buf_size_out = buf_size, heap_out = h @ [None],
                         trace = tr0 @ [Malloc n (Some a), snd c,
                                        Push_err ''blosc_filter'' H5E_CALLBACK ''Blosc decompression error'',
                                        Free (Some a)]\<rparr>
                  else
                    Inr \<lparr>retval = scast status, buf_out = Some a, buf_size_out = n,
                         heap_out = (h @ [Some blk])[the buf := None],
                         trace = tr0 @ [Malloc n (Some a), snd c, Free buf]\<rparr>)"
proof (cases "load h buf")
  case (Inl e)
  then show ?thesis by (simp add: decompressing_def free_def bind_ub_def)
next
  case (Inr src)
  show ?thesis
  proof (cases "malloc_succeeds lib h (blosc_cbuffer_sizes lib src)")
    case False
    then show ?thesis using Inr
      by (simp add: decompressing_def free_def malloc_def Let_def bind_ub_def)
  next
    case True
    show ?thesis using Inr True
      by (auto simp add: decompressing_def free_def malloc_def Let_def bind_ub_def store_fresh
            finish_fresh [OF Inr])
  qed
qed

lemma compress_call_event [simp]:
  "compress_status (snd (compress_call lib L nbytes src buf outbuf))
     = Some (fst (fst (compress_call lib L nbytes src buf outbuf)))"
  "decompress_status (snd (compress_call lib L nbytes src buf outbuf)) = None"
  "dest_limit (snd (compress_call lib L nbytes src buf outbuf)) = Some nbytes"
  "malloc_size (snd (compress_call lib L nbytes src buf outbuf)) = None"
  "alloc_of (snd (compress_call lib L nbytes src buf outbuf)) = None"
  "free_of (snd (compress_call lib L nbytes src buf outbuf)) = None"
  "is_push_err (snd (compress_call lib L nbytes src buf outbuf)) = False"
  "malloc_failed (snd (compress_call lib L nbytes src buf outbuf)) = False"
  by (simp_all add: compress_call_def Let_def)

lemma decompress_call_event [simp]:
  "decompress_status (snd (decompress_call lib src buf outbuf n))
     = Some (fst (fst (decompress_call lib src buf outbuf n)))"
  "compress_status (snd (decompress_call lib src buf outbuf n)) = None"
  "dest_limit (snd (decompress_call lib src buf outbuf n)) = Some n"
  "malloc_size (snd (decompress_call lib src buf outbuf n)) = None"
  "alloc_of (snd (decompress_call lib src buf outbuf n)) = None"
  "free_of (snd (decompress_call lib src buf outbuf n)) = None"
  "is_push_err (snd (decompress_call lib src buf outbuf n)) = False"
  "malloc_failed (snd (decompress_call lib src buf outbuf n)) = False"
  by (simp_all add: decompress_call_def Let_def)

lemma map_filter_append: "List.map_filter f (xs @ ys) = List.map_filter f xs @ List.map_filter f ys"
  by (simp add: map_filter_def)

lemmas trace_simps =
  allocated_def freed_def statuses_def codec_status_def failure_event_def
  map_filter_append

text \<open>What the first stage leaves in the trace: nothing, or the one error of line 281.\<close>

lemma decode_params_trace:
  assumes "decode_params lib cd_nelmts cd_values = Inr (L, tr, g)"
  shows "(tr = [] \<and> \<not> g) \<or>
         (tr = [Push_err ''blosc_filter'' H5E_CALLBACK
                  (unsupported_msg (compname L) (blosc_list_compressors lib))]
            \<and> 7 \<le> cd_nelmts \<and> 6 < length cd_values
            \<and> fst (blosc_compcode_to_compname lib (cd_values ! 6) (Some ''blosclz'')) = - 1
            \<and> (g \<longleftrightarrow> H5Epush_vers lib \<noteq> 2))"
  using assms
  by (auto simp: decode_params_def bind_ub_def slot_def Let_def split: if_splits sum.splits)

lemma trace_decoded:
  assumes "(tr = [] \<and> \<not> g) \<or> (tr = [Push_err f m msg] \<and> P)"
  shows "List.map_filter alloc_of tr = []" "List.map_filter free_of tr = []"
    "\<not> list_ex failure_event tr"
    "List.map_filter compress_status tr = []"
    "List.map_filter decompress_status tr = []"
    "List.map_filter codec_status tr = []"
    "List.map_filter dest_limit tr = []"
    "List.map_filter malloc_size tr = []"
  using assms by (auto simp: trace_simps)

lemma blosc_filter_Inr:
  assumes "blosc_filter lib flags cd_nelmts cd_values nbytes buf_size buf h = Inr r"
  obtains L tr g where "decode_params lib cd_nelmts cd_values = Inr (L, tr, g)"
    and "g \<Longrightarrow> failed None buf_size buf h tr = Inr r"
    and "\<not> g \<Longrightarrow> flags AND H5Z_FLAG_REVERSE lib = 0 \<Longrightarrow>
           compressing lib L nbytes buf_size buf h tr = Inr r"
    and "\<not> g \<Longrightarrow> flags AND H5Z_FLAG_REVERSE lib \<noteq> 0 \<Longrightarrow>
           decompressing lib L nbytes buf_size buf h tr = Inr r"
  using assms
  by (auto simp: blosc_filter_def bind_ub_def split: sum.splits prod.splits if_splits)

lemma uint_scast_nonneg:
  fixes s :: cint
  assumes "0 \<le> sint s"
  shows "uint (scast s :: size_t) = sint s"
proof -
  have "sint s < 2 ^ 31" using sint_lt [of s] by simp
  moreover have "(2 :: int) ^ 31 \<le> 2 ^ 64" by (rule power_increasing) simp_all
  ultimately have "sint s < 2 ^ 64" by (rule less_le_trans)
  with assms have m: "sint s mod 2 ^ 64 = sint s" by (rule mod_pos_pos_trivial)
  have "uint (scast s :: size_t) = sint s mod 2 ^ 64"
    unfolding scast_eq uint_word_of_int by simp
  also have "\<dots> = sint s" by (rule m)
  finally show ?thesis .
qed

section \<open>Properties of \<open>blosc_filter\<close>\<close>

text \<open>
  Read off a trace: whenever a call has returned and its trace shows that \<open>malloc\<close>
  gave null, or the compressing codec a negative status, or the decompressing codec a
  status that is not positive, the call returned 0, \<open>*buf\<close> and \<open>*buf_size\<close> are as
  they were, every block of the heap at entry is as it was, an error was pushed, and
  the blocks freed are exactly the blocks allocated, at most one, which is dead
  afterwards.
\<close>

lemma failed_exit_of_trace:
  assumes run: "blosc_filter lib flags cd_nelmts cd_values nbytes buf_size buf h = Inr r"
    and fail: "list_ex failure_event (trace r)"
  shows "retval r = 0 \<and> buf_out r = buf \<and> buf_size_out r = buf_size
         \<and> take (length h) (heap_out r) = h
         \<and> list_ex is_push_err (trace r)
         \<and> freed (trace r) = allocated (trace r) \<and> length (allocated (trace r)) \<le> 1
         \<and> list_all (\<lambda>a. \<not> live (heap_out r) a) (allocated (trace r))"
proof -
  obtain L tr g where dec: "decode_params lib cd_nelmts cd_values = Inr (L, tr, g)"
    and f: "g \<Longrightarrow> failed None buf_size buf h tr = Inr r"
    and c: "\<not> g \<Longrightarrow> flags AND H5Z_FLAG_REVERSE lib = 0 \<Longrightarrow>
           compressing lib L nbytes buf_size buf h tr = Inr r"
    and d: "\<not> g \<Longrightarrow> flags AND H5Z_FLAG_REVERSE lib \<noteq> 0 \<Longrightarrow>
           decompressing lib L nbytes buf_size buf h tr = Inr r"
    using blosc_filter_Inr [OF run] by blast
  note t = trace_decoded [OF decode_params_trace [OF dec]]
  show ?thesis
  proof (cases g)
    case True
    then have "r = \<lparr>retval = 0, buf_out = buf, buf_size_out = buf_size, heap_out = h,
                    trace = tr @ [Free None]\<rparr>"
      using f by simp
    then show ?thesis using fail t by (simp add: trace_simps)
  next
    case False
    show ?thesis
    proof (cases "flags AND H5Z_FLAG_REVERSE lib = 0")
      case True
      show ?thesis
        using c [OF False True] fail t
        by (auto simp: compressing_eq Let_def trace_simps live_def nth_append
              split: if_splits sum.splits)
    next
      case rev: False
      show ?thesis
        using d [OF False rev] fail t
        by (auto simp: decompressing_eq Let_def trace_simps live_def nth_append
              split: if_splits sum.splits)
    qed
  qed
qed

text \<open>
  Read off a trace: whenever a call has returned and its trace shows a positive codec
  status, the caller's block is freed, \<open>*buf\<close> is the block allocated in the call,
  which is live and as long as \<open>*buf_size\<close> now says, and the return value is the
  status.
\<close>

lemma success_of_trace:
  assumes run: "blosc_filter lib flags cd_nelmts cd_values nbytes buf_size buf h = Inr r"
    and st: "s \<in> set (statuses (trace r))"
    and pos: "0 < sint s"
  shows "\<exists>a outbuf blk.
           buf = Some a \<and> live h a \<and> \<not> live (heap_out r) a \<and> freed (trace r) = [a]
         \<and> allocated (trace r) = [outbuf] \<and> outbuf \<noteq> a
         \<and> Malloc (buf_size_out r) (Some outbuf) \<in> set (trace r)
         \<and> buf_out r = Some outbuf
         \<and> outbuf < length (heap_out r) \<and> heap_out r ! outbuf = Some blk
         \<and> length blk = unat (buf_size_out r)
         \<and> retval r = scast s \<and> uint (retval r) = sint s"
proof -
  obtain L tr g where dec: "decode_params lib cd_nelmts cd_values = Inr (L, tr, g)"
    and f: "g \<Longrightarrow> failed None buf_size buf h tr = Inr r"
    and c: "\<not> g \<Longrightarrow> flags AND H5Z_FLAG_REVERSE lib = 0 \<Longrightarrow>
           compressing lib L nbytes buf_size buf h tr = Inr r"
    and d: "\<not> g \<Longrightarrow> flags AND H5Z_FLAG_REVERSE lib \<noteq> 0 \<Longrightarrow>
           decompressing lib L nbytes buf_size buf h tr = Inr r"
    using blosc_filter_Inr [OF run] by blast
  note t = trace_decoded [OF decode_params_trace [OF dec]]
  have sc: "uint (scast s :: size_t) = sint s"
    using pos by (simp add: uint_scast_nonneg)
  have nz: "s \<noteq> 0" using pos by auto
  show ?thesis
  proof (cases g)
    case True
    then have "r = \<lparr>retval = 0, buf_out = buf, buf_size_out = buf_size, heap_out = h,
                    trace = tr @ [Free None]\<rparr>"
      using f by simp
    then show ?thesis using st t by (simp add: trace_simps)
  next
    case False
    show ?thesis
    proof (cases "flags AND H5Z_FLAG_REVERSE lib = 0")
      case True
      show ?thesis
        using c [OF False True] st pos t sc nz
        by (auto simp: compressing_eq Let_def trace_simps live_def nth_append load_Inr
              split: if_splits sum.splits)
    next
      case rev: False
      show ?thesis
        using d [OF False rev] st pos t sc nz
        by (auto simp: decompressing_eq Let_def trace_simps live_def nth_append load_Inr
              split: if_splits sum.splits)
    qed
  qed
qed

text \<open>Unfolding a block of zeros of a given length, for running examples.\<close>

lemma replicate_pos: "0 < n \<Longrightarrow> replicate n x = x # replicate (n - 1) x"
  by (cases n) simp_all

lemmas run_simps =
  blosc_filter_def test_lib_def decode_params_def bind_ub_def slot_def compressing_def
  decompressing_def compress_call_def decompress_call_def before_1_5_def failed_def
  finish_def free_def load_def store_def malloc_def live_def Let_def unsupported_msg_def
  percent_s_def replicate_pos


text \<open>
  C4. When the compressing codec came back with status 0, the call returns 0 and
  \<open>*buf\<close>, \<open>*buf_size\<close> and every block of the heap at entry are as they were; the
  output block was allocated with \<open>*buf_size\<close> bytes and is freed; after the first
  stage the trace holds the allocation, the codec call and the \<open>free\<close>, and no error.
  When no compressor id was given, or the registry knew it, the first stage left
  nothing in the trace either.
\<close>

theorem blosc_filter_compress_zero:
  assumes run: "blosc_filter lib flags cd_nelmts cd_values nbytes buf_size buf h = Inr r"
    and comp: "flags AND H5Z_FLAG_REVERSE lib = 0"
    and zero: "0 \<in> set (statuses (trace r))"
  shows "retval r = 0 \<and> buf_out r = buf \<and> buf_size_out r = buf_size
         \<and> take (length h) (heap_out r) = h
         \<and> (\<exists>L pre a ev.
               decode_params lib cd_nelmts cd_values = Inr (L, pre, False)
             \<and> trace r = pre @ [Malloc buf_size (Some a), ev, Free (Some a)]
             \<and> compress_status ev = Some 0 \<and> \<not> is_push_err ev
             \<and> \<not> live (heap_out r) a
             \<and> (cd_nelmts < 7
                  \<or> fst (blosc_compcode_to_compname lib (cd_values ! 6) (Some ''blosclz'')) \<noteq> - 1
                  \<longrightarrow> pre = []))"
proof -
  obtain L tr g where dec: "decode_params lib cd_nelmts cd_values = Inr (L, tr, g)"
    and f: "g \<Longrightarrow> failed None buf_size buf h tr = Inr r"
    and c: "\<not> g \<Longrightarrow> flags AND H5Z_FLAG_REVERSE lib = 0 \<Longrightarrow>
           compressing lib L nbytes buf_size buf h tr = Inr r"
    using blosc_filter_Inr [OF run] by blast
  note shape = decode_params_trace [OF dec]
  note t = trace_decoded [OF shape]
  have ng: "\<not> g"
  proof
    assume g
    then have "r = \<lparr>retval = 0, buf_out = buf, buf_size_out = buf_size, heap_out = h,
                    trace = tr @ [Free None]\<rparr>"
      using f by simp
    then show False using zero t by (simp add: trace_simps)
  qed
  have pre: "cd_nelmts < 7
               \<or> fst (blosc_compcode_to_compname lib (cd_values ! 6) (Some ''blosclz'')) \<noteq> - 1
             \<longrightarrow> tr = []"
    using shape by auto
  have dec': "decode_params lib cd_nelmts cd_values = Inr (L, tr, False)"
    using dec ng by simp
  show ?thesis
    using c [OF ng comp] zero t pre dec'
    by (auto simp: compressing_eq Let_def trace_simps live_def nth_append
          split: if_splits sum.splits)
qed

text \<open>Writing a chunk that the codec cannot make smaller.\<close>

theorem blosc_filter_compress_zero_witness:
  "(case blosc_filter (test_lib 2 5 0 0 True) 0 4 [2, 2, 4, 400] 8 8 (Some 0)
           [Some [1, 2, 3, 4, 5, 6, 7, 8]] of
      Inl e \<Rightarrow> False
    | Inr r \<Rightarrow>
        0 \<in> set (statuses (trace r)) \<and> retval r = 0 \<and> buf_out r = Some 0
        \<and> buf_size_out r = 8 \<and> heap_out r = [Some [1, 2, 3, 4, 5, 6, 7, 8], None]
        \<and> trace r = [Malloc 8 (Some 1),
                      Blosc_compress_ctx 5 1 4 8 (Some 0) (Some 1) 8 (Some ''blosclz'') 0 1 0,
                      Free (Some 1)])"
proof -
  let ?r = "\<lparr>retval = 0, buf_out = Some 0, buf_size_out = 8,
             heap_out = [Some [1, 2, 3, 4, 5, 6, 7, 8], None],
             trace = [Malloc 8 (Some 1),
                      Blosc_compress_ctx 5 1 4 8 (Some 0) (Some 1) 8 (Some ''blosclz'') 0 1 0,
                      Free (Some 1)]\<rparr>"
  have run: "blosc_filter (test_lib 2 5 0 0 True) 0 4 [2, 2, 4, 400] 8 8 (Some 0)
               [Some [1, 2, 3, 4, 5, 6, 7, 8]] = Inr ?r"
    by (simp add: run_simps)
  have comp: "(0 :: uint) AND H5Z_FLAG_REVERSE (test_lib 2 5 0 0 True) = 0"
    by simp
  have zero: "0 \<in> set (statuses (trace ?r))"
    by (simp add: trace_simps)
  show ?thesis
    using blosc_filter_compress_zero [OF run comp zero] run by (simp add: trace_simps)
qed

lemma slot_update:
  "slot (cd_values[3 := x]) i = (if i = 3 \<and> 3 < length cd_values then Inr x else slot cd_values i)"
  by (auto simp: slot_def)

text \<open>Slot 3 reaches the locals only as the first value of \<open>outbuf_size\<close>.\<close>

lemma decode_params_slot3:
  assumes "decode_params lib cd_nelmts cd_values = Inr (L, tr, g)"
  shows "decode_params lib cd_nelmts (cd_values[3 := x]) = Inr (L\<lparr>outbuf_size := ucast x\<rparr>, tr, g)"
  using assms
  by (auto simp: decode_params_def bind_ub_def slot_update slot_def Let_def
        split: if_splits sum.splits)

lemma decompressing_locals:
  "decompressing lib L nbytes buf_size buf h tr = decompressing lib L' nbytes buf_size buf h tr"
  by (simp add: decompressing_eq)

text \<open>
  C2. In a decompressing call every size given to \<open>malloc\<close> and every destination
  size given to the codec is the size that \<open>blosc_cbuffer_sizes\<close> reads from the block
  at \<open>*buf\<close>; and the whole result stays the same when slot 3 is replaced by any other
  value.
\<close>

theorem blosc_filter_decompress_size:
  assumes run: "blosc_filter lib flags cd_nelmts cd_values nbytes buf_size buf h = Inr r"
    and rev: "flags AND H5Z_FLAG_REVERSE lib \<noteq> 0"
  shows "(\<forall>n \<in> set (List.map_filter malloc_size (trace r)) \<union> set (List.map_filter dest_limit (trace r)).
            \<exists>src. load h buf = Inr src \<and> n = blosc_cbuffer_sizes lib src)
         \<and> (\<forall>x. blosc_filter lib flags cd_nelmts (cd_values[3 := x]) nbytes buf_size buf h = Inr r)"
proof -
  obtain L tr g where dec: "decode_params lib cd_nelmts cd_values = Inr (L, tr, g)"
    and f: "g \<Longrightarrow> failed None buf_size buf h tr = Inr r"
    and d: "\<not> g \<Longrightarrow> flags AND H5Z_FLAG_REVERSE lib \<noteq> 0 \<Longrightarrow>
           decompressing lib L nbytes buf_size buf h tr = Inr r"
    using blosc_filter_Inr [OF run] by blast
  note t = trace_decoded [OF decode_params_trace [OF dec]]
  have sizes: "\<forall>n \<in> set (List.map_filter malloc_size (trace r)) \<union> set (List.map_filter dest_limit (trace r)).
            \<exists>src. load h buf = Inr src \<and> n = blosc_cbuffer_sizes lib src"
  proof (cases g)
    case True
    then have "r = \<lparr>retval = 0, buf_out = buf, buf_size_out = buf_size, heap_out = h,
                    trace = tr @ [Free None]\<rparr>"
      using f by simp
    then show ?thesis using t by (simp add: trace_simps)
  next
    case False
    show ?thesis
      using d [OF False rev] t
      by (auto simp: decompressing_eq Let_def trace_simps split: if_splits sum.splits)
  qed
  have same: "blosc_filter lib flags cd_nelmts (cd_values[3 := x]) nbytes buf_size buf h = Inr r" for x
  proof (cases g)
    case True
    then show ?thesis
      using f decode_params_slot3 [OF dec, of x] by (simp add: blosc_filter_def bind_ub_def)
  next
    case False
    have "decompressing lib (L\<lparr>outbuf_size := ucast x\<rparr>) nbytes buf_size buf h tr = Inr r"
      using d [OF False rev]
        decompressing_locals [of lib "L\<lparr>outbuf_size := ucast x\<rparr>" nbytes buf_size buf h tr L]
      by simp
    then show ?thesis
      using False rev decode_params_slot3 [OF dec, of x] by (simp add: blosc_filter_def bind_ub_def)
  qed
  show ?thesis using sizes same by blast
qed

text \<open>
  A payload whose header says 6 bytes, read with a slot 3 that says 400: the block
  allocated has 6 bytes.
\<close>

theorem blosc_filter_decompress_size_witness:
  "(case blosc_filter (test_lib 2 5 0 6 True) 0x100 4 [2, 2, 4, 400] 8 8 (Some 0)
           [Some [1, 2, 3, 4, 6, 6, 7, 8]] of
      Inl e \<Rightarrow> False
    | Inr r \<Rightarrow>
        0x100 AND H5Z_FLAG_REVERSE (test_lib 2 5 0 6 True) \<noteq> 0
        \<and> List.map_filter malloc_size (trace r) = [6] \<and> List.map_filter dest_limit (trace r) = [6]
        \<and> blosc_cbuffer_sizes (test_lib 2 5 0 6 True) [1, 2, 3, 4, 6, 6, 7, 8] = 6
        \<and> blosc_filter (test_lib 2 5 0 6 True) 0x100 4 ([2, 2, 4, 400][3 := 7]) 8 8 (Some 0)
             [Some [1, 2, 3, 4, 6, 6, 7, 8]] = Inr r)"
proof -
  let ?r = "\<lparr>retval = 6, buf_out = Some 1, buf_size_out = 6,
             heap_out = [None, Some [1, 2, 3, 4, 6, 6]],
             trace = [Free None, Blosc_cbuffer_sizes (Some 0) 6, Malloc 6 (Some 1),
                      Blosc_decompress_ctx (Some 0) (Some 1) 6 1 6, Free (Some 0)]\<rparr>"
  have run: "blosc_filter (test_lib 2 5 0 6 True) 0x100 4 [2, 2, 4, 400] 8 8 (Some 0)
               [Some [1, 2, 3, 4, 6, 6, 7, 8]] = Inr ?r"
    by (simp add: run_simps)
  have rev: "(0x100 :: uint) AND H5Z_FLAG_REVERSE (test_lib 2 5 0 6 True) \<noteq> 0"
    by (simp add: test_lib_def)
  have hdr: "blosc_cbuffer_sizes (test_lib 2 5 0 6 True) [1, 2, 3, 4, 6, 6, 7, 8] = 6"
    by (simp add: test_lib_def)
  show ?thesis
    using blosc_filter_decompress_size [OF run rev] run rev hdr by simp
qed

lemma decode_params_Inl:
  assumes "decode_params lib cd_nelmts cd_values = Inl e"
  shows "e \<noteq> Write_past_block \<and> e \<noteq> Invalid_pointer"
  using assms
  by (auto simp: decode_params_def bind_ub_def slot_def Let_def split: if_splits sum.splits)

text \<open>
  C9, as amended. In a compressing call every size given to \<open>malloc\<close> is \<open>*buf_size\<close>
  and the destination limit given to the codec is \<open>nbytes\<close>. When \<open>nbytes\<close> is at
  most \<open>*buf_size\<close>, the limit is within the capacity and no write goes past the
  block.
\<close>

theorem blosc_filter_compress_capacity:
  assumes comp: "flags AND H5Z_FLAG_REVERSE lib = 0"
  shows "(\<forall>r. blosc_filter lib flags cd_nelmts cd_values nbytes buf_size buf h = Inr r \<longrightarrow>
            (\<forall>n \<in> set (List.map_filter malloc_size (trace r)). n = buf_size)
          \<and> (\<forall>d \<in> set (List.map_filter dest_limit (trace r)). d = nbytes))
         \<and> (nbytes \<le> buf_size \<longrightarrow>
              blosc_filter lib flags cd_nelmts cd_values nbytes buf_size buf h \<noteq> Inl Write_past_block
            \<and> (\<forall>r. blosc_filter lib flags cd_nelmts cd_values nbytes buf_size buf h = Inr r \<longrightarrow>
                  (\<forall>d \<in> set (List.map_filter dest_limit (trace r)). d \<le> buf_size)))"
proof -
  have sizes: "(\<forall>n \<in> set (List.map_filter malloc_size (trace r)). n = buf_size)
          \<and> (\<forall>d \<in> set (List.map_filter dest_limit (trace r)). d = nbytes)"
    if run: "blosc_filter lib flags cd_nelmts cd_values nbytes buf_size buf h = Inr r" for r
  proof -
    obtain L tr g where dec: "decode_params lib cd_nelmts cd_values = Inr (L, tr, g)"
      and f: "g \<Longrightarrow> failed None buf_size buf h tr = Inr r"
      and c: "\<not> g \<Longrightarrow> flags AND H5Z_FLAG_REVERSE lib = 0 \<Longrightarrow>
             compressing lib L nbytes buf_size buf h tr = Inr r"
      using blosc_filter_Inr [OF run] by blast
    note t = trace_decoded [OF decode_params_trace [OF dec]]
    show ?thesis
    proof (cases g)
      case True
      then have "r = \<lparr>retval = 0, buf_out = buf, buf_size_out = buf_size, heap_out = h,
                      trace = tr @ [Free None]\<rparr>"
        using f by simp
      then show ?thesis using t by (simp add: trace_simps)
    next
      case False
      show ?thesis
        using c [OF False comp] t
        by (auto simp: compressing_eq Let_def trace_simps split: if_splits sum.splits)
    qed
  qed
  have inside: "blosc_filter lib flags cd_nelmts cd_values nbytes buf_size buf h \<noteq> Inl Write_past_block"
    if cap: "nbytes \<le> buf_size"
  proof
    assume over: "blosc_filter lib flags cd_nelmts cd_values nbytes buf_size buf h = Inl Write_past_block"
    have le: "unat nbytes \<le> unat buf_size"
      using cap by (simp add: word_le_nat_alt)
    show False
    proof (cases "decode_params lib cd_nelmts cd_values")
      case (Inl e)
      then show ?thesis
        using over decode_params_Inl [OF Inl] by (simp add: blosc_filter_def bind_ub_def)
    next
      case (Inr v)
      obtain L tr g where v: "v = (L, tr, g)" by (cases v)
      show ?thesis
        using over Inr v comp le
        by (auto simp: blosc_filter_def bind_ub_def compressing_eq Let_def load_def
              split: if_splits sum.splits option.splits)
    qed
  qed
  show ?thesis using sizes inside by auto
qed

text \<open>A call with 8 bytes in a buffer of 16: the block has 16 bytes, the limit is 8.\<close>

theorem blosc_filter_compress_capacity_witness:
  "(0 :: uint) AND H5Z_FLAG_REVERSE (test_lib 2 5 3 0 True) = 0 \<and> (8 :: size_t) \<le> 16
   \<and> (case blosc_filter (test_lib 2 5 3 0 True) 0 4 [2, 2, 4, 400] 8 16 (Some 0)
              [Some [1, 2, 3, 4, 5, 6, 7, 8, 0, 0, 0, 0, 0, 0, 0, 0]] of
         Inl e \<Rightarrow> False
       | Inr r \<Rightarrow>
           List.map_filter malloc_size (trace r) = [16] \<and> List.map_filter dest_limit (trace r) = [8])"
proof -
  let ?r = "\<lparr>retval = 3, buf_out = Some 1, buf_size_out = 16,
             heap_out = [None, Some [1, 2, 3, 0, 0, 0, 0, 0, 0, 0, 0, 0, 0, 0, 0, 0]],
             trace = [Malloc 16 (Some 1),
                      Blosc_compress_ctx 5 1 4 8 (Some 0) (Some 1) 8 (Some ''blosclz'') 0 1 3,
                      Free (Some 0)]\<rparr>"
  have run: "blosc_filter (test_lib 2 5 3 0 True) 0 4 [2, 2, 4, 400] 8 16 (Some 0)
               [Some [1, 2, 3, 4, 5, 6, 7, 8, 0, 0, 0, 0, 0, 0, 0, 0]] = Inr ?r"
    by (simp add: run_simps)
  have comp: "(0 :: uint) AND H5Z_FLAG_REVERSE (test_lib 2 5 3 0 True) = 0"
    by simp
  have cap: "(8 :: size_t) \<le> 16"
    by simp
  show ?thesis
    using blosc_filter_compress_capacity [OF comp, of 4 "[2, 2, 4, 400]" 8 16 "Some 0"
        "[Some [1, 2, 3, 4, 5, 6, 7, 8, 0, 0, 0, 0, 0, 0, 0, 0]]"] run comp cap
    by simp
qed

text \<open>
  C9 without the condition on \<open>nbytes\<close> fails when the caller gives more bytes than
  capacity: with
  \<open>nbytes\<close> 10 and \<open>*buf_size\<close> 5 the codec is called with the limit 10 on a block of
  5 bytes, and a codec that uses 8 of them writes past the block.
\<close>

theorem blosc_filter_compress_limit_counterexample:
  "blosc_filter (test_lib 2 5 0 0 True) 0 4 [2, 2, 4, 400] 10 5 (Some 0)
     [Some [1, 2, 3, 4, 5, 6, 7, 8, 9, 10]]
   = Inr \<lparr>retval = 0, buf_out = Some 0, buf_size_out = 5,
          heap_out = [Some [1, 2, 3, 4, 5, 6, 7, 8, 9, 10], None],
          trace = [Malloc 5 (Some 1),
                   Blosc_compress_ctx 5 1 4 10 (Some 0) (Some 1) 10 (Some ''blosclz'') 0 1 0,
                   Free (Some 1)]\<rparr>
   \<and> \<not> (10 :: size_t) \<le> 5
   \<and> blosc_filter (test_lib 2 5 8 0 True) 0 4 [2, 2, 4, 400] 10 5 (Some 0)
        [Some [1, 2, 3, 4, 5, 6, 7, 8, 9, 10]]
      = Inl Write_past_block"
  by (simp add: run_simps)

lemma later_stages_no_array_read:
  "failed None buf_size buf h tr \<noteq> Inl (Read_past_array i)"
  "compressing lib L nbytes buf_size buf h tr \<noteq> Inl (Read_past_array i)"
  "decompressing lib L nbytes buf_size buf h tr \<noteq> Inl (Read_past_array i)"
  by (auto simp: compressing_eq decompressing_eq Let_def load_def
        split: if_splits sum.splits option.splits)

lemma decode_params_short:
  assumes "length cd_values = unat cd_nelmts" and "cd_nelmts < 4"
  shows "decode_params lib cd_nelmts cd_values
           = Inl (Read_past_array (if cd_nelmts < 3 then 2 else 3))"
  using assms
  by (auto simp: decode_params_def bind_ub_def slot_def word_less_nat_alt)

lemma decode_params_long:
  assumes "length cd_values = unat cd_nelmts" and "4 \<le> cd_nelmts"
  shows "decode_params lib cd_nelmts cd_values \<noteq> Inl (Read_past_array i)"
  using assms
  by (auto simp: decode_params_def bind_ub_def slot_def Let_def word_le_nat_alt
        split: if_splits sum.splits)

text \<open>
  C10. Slots 2 and 3 are read before \<open>cd_nelmts\<close> is looked at. For an array of
  \<open>cd_nelmts\<close> values, fewer than 4 of them make the call a read past the array, at
  slot 2 or at slot 3, which is no result at all: nothing is returned and no error is
  pushed. With 4 or more, no read goes past the array.
\<close>

theorem blosc_filter_slot_reads:
  assumes len: "length cd_values = unat cd_nelmts"
  shows "(cd_nelmts < 4 \<longrightarrow>
            blosc_filter lib flags cd_nelmts cd_values nbytes buf_size buf h
              = Inl (Read_past_array (if cd_nelmts < 3 then 2 else 3)))
         \<and> (4 \<le> cd_nelmts \<longrightarrow>
              (\<forall>i. blosc_filter lib flags cd_nelmts cd_values nbytes buf_size buf h
                     \<noteq> Inl (Read_past_array i)))"
proof (intro conjI impI allI)
  assume "cd_nelmts < 4"
  then show "blosc_filter lib flags cd_nelmts cd_values nbytes buf_size buf h
               = Inl (Read_past_array (if cd_nelmts < 3 then 2 else 3))"
    using decode_params_short [OF len, of lib] by (simp add: blosc_filter_def bind_ub_def)
next
  fix i
  assume ge: "4 \<le> cd_nelmts"
  show "blosc_filter lib flags cd_nelmts cd_values nbytes buf_size buf h \<noteq> Inl (Read_past_array i)"
  proof (cases "decode_params lib cd_nelmts cd_values")
    case (Inl e)
    then show ?thesis
      using decode_params_long [OF len ge, of lib i] by (simp add: blosc_filter_def bind_ub_def)
  next
    case (Inr v)
    obtain L tr g where v: "v = (L, tr, g)" by (cases v)
    show ?thesis
      using Inr v later_stages_no_array_read
      by (simp add: blosc_filter_def bind_ub_def)
  qed
qed

text \<open>Three slots: slot 3 is read past the array. Four slots: the call runs.\<close>

theorem blosc_filter_slot_reads_witness:
  "length [2, 2, 4 :: uint] = unat (3 :: size_t) \<and> (3 :: size_t) < 4
   \<and> blosc_filter (test_lib 2 5 0 0 True) 0 3 [2, 2, 4] 8 8 (Some 0)
        [Some [1, 2, 3, 4, 5, 6, 7, 8]] = Inl (Read_past_array 3)
   \<and> length [2, 2, 4, 400 :: uint] = unat (4 :: size_t) \<and> (4 :: size_t) \<le> 4
   \<and> blosc_filter (test_lib 2 5 0 0 True) 0 4 [2, 2, 4, 400] 8 8 (Some 0)
        [Some [1, 2, 3, 4, 5, 6, 7, 8]] \<noteq> Inl (Read_past_array 3)"
proof -
  have len3: "length [2, 2, 4 :: uint] = unat (3 :: size_t)" by simp
  have len4: "length [2, 2, 4, 400 :: uint] = unat (4 :: size_t)" by simp
  show ?thesis
    using blosc_filter_slot_reads [OF len3, of "test_lib 2 5 0 0 True" 0 8 8 "Some 0"
            "[Some [1, 2, 3, 4, 5, 6, 7, 8]]"]
          blosc_filter_slot_reads [OF len4, of "test_lib 2 5 0 0 True" 0 8 8 "Some 0"
            "[Some [1, 2, 3, 4, 5, 6, 7, 8]]"]
    by simp
qed

text \<open>
  The locals after the first stage: with 4 slots the level is 5, the shuffle is 1
  and the compressor is \<open>blosclz\<close>; with 5 the level is slot 4; with 6 the shuffle is
  slot 5 as well; with 7 or more the compressor name is what the registry gives for
  slot 6.
\<close>

lemma decode_params_defaults:
  assumes "decode_params lib cd_nelmts cd_values = Inr (L, tr, g)"
  shows "(cd_nelmts = 4 \<longrightarrow>
            clevel L = 5 \<and> doshuffle L = 1 \<and> compname L = Some ''blosclz'')
         \<and> (cd_nelmts = 5 \<longrightarrow>
              clevel L = cd_values ! 4 \<and> doshuffle L = 1 \<and> compname L = Some ''blosclz'')
         \<and> (cd_nelmts = 6 \<longrightarrow>
              clevel L = cd_values ! 4 \<and> doshuffle L = cd_values ! 5
              \<and> compname L = Some ''blosclz'')
         \<and> (7 \<le> cd_nelmts \<longrightarrow>
              clevel L = cd_values ! 4 \<and> doshuffle L = cd_values ! 5
              \<and> compname L = snd (blosc_compcode_to_compname lib (cd_values ! 6) (Some ''blosclz'')))"
  using assms
  by (auto simp: decode_params_def bind_ub_def slot_def Let_def word_le_nat_alt
        split: if_splits sum.splits)

text \<open>Arrays of 4, 5, 6 and 7 slots, the last one naming compressor 1.\<close>

lemma decode_params_defaults_examples:
  "decode_params (test_lib 2 5 0 0 True) 4 [2, 2, 4, 400]
     = Inr (\<lparr>typesize = 4, outbuf_size = 400, clevel = 5, doshuffle = 1,
             compname = Some ''blosclz''\<rparr>, [], False)
   \<and> decode_params (test_lib 2 5 0 0 True) 5 [2, 2, 4, 400, 9]
     = Inr (\<lparr>typesize = 4, outbuf_size = 400, clevel = 9, doshuffle = 1,
             compname = Some ''blosclz''\<rparr>, [], False)
   \<and> decode_params (test_lib 2 5 0 0 True) 6 [2, 2, 4, 400, 9, 0]
     = Inr (\<lparr>typesize = 4, outbuf_size = 400, clevel = 9, doshuffle = 0,
             compname = Some ''blosclz''\<rparr>, [], False)
   \<and> decode_params (test_lib 2 5 0 0 True) 7 [2, 2, 4, 400, 9, 0, 1]
     = Inr (\<lparr>typesize = 4, outbuf_size = 400, clevel = 9, doshuffle = 0,
             compname = Some ''lz4''\<rparr>, [], False)"
proof -
  have r4: "decode_params (test_lib 2 5 0 0 True) 4 [2, 2, 4, 400]
     = Inr (\<lparr>typesize = 4, outbuf_size = 400, clevel = 5, doshuffle = 1,
             compname = Some ''blosclz''\<rparr>, [], False)"
    by (simp add: run_simps)
  have r5: "decode_params (test_lib 2 5 0 0 True) 5 [2, 2, 4, 400, 9]
     = Inr (\<lparr>typesize = 4, outbuf_size = 400, clevel = 9, doshuffle = 1,
             compname = Some ''blosclz''\<rparr>, [], False)"
    by (simp add: run_simps)
  have r6: "decode_params (test_lib 2 5 0 0 True) 6 [2, 2, 4, 400, 9, 0]
     = Inr (\<lparr>typesize = 4, outbuf_size = 400, clevel = 9, doshuffle = 0,
             compname = Some ''blosclz''\<rparr>, [], False)"
    by (simp add: run_simps)
  have r7: "decode_params (test_lib 2 5 0 0 True) 7 [2, 2, 4, 400, 9, 0, 1]
     = Inr (\<lparr>typesize = 4, outbuf_size = 400, clevel = 9, doshuffle = 0,
             compname = Some ''lz4''\<rparr>, [], False)"
    by (simp add: run_simps)
  show ?thesis
    using decode_params_defaults [OF r4] decode_params_defaults [OF r5]
      decode_params_defaults [OF r6] decode_params_defaults [OF r7] r4 r5 r6 r7
    by simp
qed

text \<open>
  The locals of the first stage are what the compressing codec is called with: the
  level and the shuffle flag always, the compressor name from Blosc 1.5 on.
\<close>

lemma blosc_filter_passes_locals:
  assumes run: "blosc_filter lib flags cd_nelmts cd_values nbytes buf_size buf h = Inr r"
    and dec: "decode_params lib cd_nelmts cd_values = Inr (L, tr, g)"
    and args: "a \<in> set (List.map_filter compress_args (trace r))"
  shows "a = (clevel L, doshuffle L, if before_1_5 lib then None else Some (compname L))"
proof -
  note t = decode_params_trace [OF dec]
  have pre: "List.map_filter compress_args tr = []"
    using t by auto
  have stage: "(if g then failed None buf_size buf h tr
                else if flags AND H5Z_FLAG_REVERSE lib = 0
                  then compressing lib L nbytes buf_size buf h tr
                  else decompressing lib L nbytes buf_size buf h tr) = Inr r"
    using run dec by (simp add: blosc_filter_def bind_ub_def)
  show ?thesis
    using stage args pre
    by (auto simp: compressing_eq decompressing_eq Let_def map_filter_append
          compress_call_def decompress_call_def
          split: if_splits sum.splits)
qed

text \<open>
  C1 does not hold in the build against HDF5 1.8 (\<open>H5Epush_vers == 2\<close>), here with a
  Blosc before 1.5. Slot 6 holds 99, which the registry does not know. The error is
  pushed, and then the call goes on: it allocates, calls \<open>blosc_compress\<close>, which
  takes no compressor name, and returns the 3 bytes of the result.
\<close>

theorem blosc_filter_unsupported_compressor_goes_on:
  "fst (blosc_compcode_to_compname (test_lib 2 4 3 0 True) 99 (Some ''blosclz'')) = - 1
   \<and> blosc_filter (test_lib 2 4 3 0 True) 0 7 [2, 2, 4, 400, 5, 1, 99] 8 8 (Some 0)
        [Some [1, 2, 3, 4, 5, 6, 7, 8]]
      = Inr \<lparr>retval = 3, buf_out = Some 1, buf_size_out = 8,
             heap_out = [None, Some [1, 2, 3, 0, 0, 0, 0, 0]],
             trace = [Push_err ''blosc_filter'' H5E_CALLBACK
                        (unsupported_msg None ''blosclz,lz4''),
                      Malloc 8 (Some 1),
                      Blosc_compress 5 1 4 8 (Some 0) (Some 1) 8 3,
                      Free (Some 0)]\<rparr>"
  by (simp add: run_simps)

text \<open>
  The other branch of the preprocessor, the one for HDF5 1.6, holds the
  \<open>goto failed\<close>: there the same call pushes the error and returns 0.
\<close>

lemma blosc_filter_unsupported_compressor_1_6:
  "blosc_filter (test_lib 1 4 3 0 True) 0 7 [2, 2, 4, 400, 5, 1, 99] 8 8 (Some 0)
        [Some [1, 2, 3, 4, 5, 6, 7, 8]]
      = Inr \<lparr>retval = 0, buf_out = Some 0, buf_size_out = 8,
             heap_out = [Some [1, 2, 3, 4, 5, 6, 7, 8]],
             trace = [Push_err ''blosc_filter'' H5E_CALLBACK
                        (unsupported_msg None ''blosclz,lz4''),
                      Free None]\<rparr>"
  by (simp add: run_simps)

section \<open>From the answers of the allocator and the codec to the result\<close>

lemma compress_call_answer:
  "fst (compress_call lib (L\<lparr>outbuf_size := n\<rparr>) nbytes src buf outbuf)
     = compress_answer lib L nbytes src"
  by (simp add: compress_call_def compress_answer_def before_1_5_def Let_def)

lemma decompress_call_answer:
  "fst (decompress_call lib src buf outbuf n) = decompress_answer lib src n"
  by (simp add: decompress_call_def decompress_answer_def before_1_5_def Let_def)

lemma load_live:
  assumes "buf = Some a" and "a < length h" and "h ! a = Some src"
  shows "load h buf = Inr src"
  using assms by (simp add: load_def)

lemma blosc_filter_stage:
  assumes "decode_params lib cd_nelmts cd_values = Inr (L, pre, False)"
  shows "blosc_filter lib flags cd_nelmts cd_values nbytes buf_size buf h =
           (if flags AND H5Z_FLAG_REVERSE lib = 0
            then compressing lib L nbytes buf_size buf h pre
            else decompressing lib L nbytes buf_size buf h pre)"
  using assms by (simp add: blosc_filter_def bind_ub_def)

text \<open>
  C3. Let the first stage end without \<open>goto failed\<close> and let \<open>*buf\<close> name a live
  block. Then the call returns, and what it returns is fixed by what the allocator and
  the codec answer. When \<open>malloc\<close> gives null, in either direction: 0 is returned,
  \<open>*buf\<close>, \<open>*buf_size\<close> and the heap are as they were, and the trace ends with the
  failed allocation, one error and \<open>free(NULL)\<close>. When the compressing codec answers
  with a negative status, or the decompressing codec with a status that is not
  positive: 0 is returned, \<open>*buf\<close> and \<open>*buf_size\<close> are as they were, the heap is the
  heap at entry with the scratch block dead behind it, and the trace ends with the
  allocation of the scratch block, the codec call with that status, one error and one
  \<open>free\<close>, of the scratch block.
\<close>

theorem blosc_filter_failed_exit:
  assumes dec: "decode_params lib cd_nelmts cd_values = Inr (L, pre, False)"
    and buf: "buf = Some a" "a < length h" "h ! a = Some src"
  shows
    "(flags AND H5Z_FLAG_REVERSE lib = 0 \<and> \<not> malloc_succeeds lib h buf_size \<longrightarrow>
        blosc_filter lib flags cd_nelmts cd_values nbytes buf_size buf h =
          Inr \<lparr>retval = 0, buf_out = buf, buf_size_out = buf_size, heap_out = h,
               trace = pre @ [Malloc buf_size None,
                              Push_err ''blosc_filter'' H5E_CALLBACK ''Can't allocate compression buffer'',
                              Free None]\<rparr>)
     \<and> (flags AND H5Z_FLAG_REVERSE lib = 0 \<and> malloc_succeeds lib h buf_size
          \<and> sint (fst (compress_answer lib L nbytes src)) < 0
          \<and> length (take (unat nbytes) (snd (compress_answer lib L nbytes src))) \<le> unat buf_size \<longrightarrow>
          (\<exists>ev. compress_status ev = Some (fst (compress_answer lib L nbytes src))
              \<and> blosc_filter lib flags cd_nelmts cd_values nbytes buf_size buf h =
                  Inr \<lparr>retval = 0, buf_out = buf, buf_size_out = buf_size, heap_out = h @ [None],
                       trace = pre @ [Malloc buf_size (Some (length h)), ev,
                                      Push_err ''blosc_filter'' H5E_CALLBACK ''Blosc compression error'',
                                      Free (Some (length h))]\<rparr>))
     \<and> (flags AND H5Z_FLAG_REVERSE lib \<noteq> 0
          \<and> \<not> malloc_succeeds lib h (blosc_cbuffer_sizes lib src) \<longrightarrow>
          blosc_filter lib flags cd_nelmts cd_values nbytes buf_size buf h =
            Inr \<lparr>retval = 0, buf_out = buf, buf_size_out = buf_size, heap_out = h,
                 trace = pre @ [Free None, Blosc_cbuffer_sizes buf (blosc_cbuffer_sizes lib src),
                                Malloc (blosc_cbuffer_sizes lib src) None,
                                Push_err ''blosc_filter'' H5E_CALLBACK ''Can't allocate decompression buffer'',
                                Free None]\<rparr>)
     \<and> (flags AND H5Z_FLAG_REVERSE lib \<noteq> 0
          \<and> malloc_succeeds lib h (blosc_cbuffer_sizes lib src)
          \<and> sint (fst (decompress_answer lib src (blosc_cbuffer_sizes lib src))) \<le> 0 \<longrightarrow>
          (\<exists>ev. decompress_status ev
                   = Some (fst (decompress_answer lib src (blosc_cbuffer_sizes lib src)))
              \<and> blosc_filter lib flags cd_nelmts cd_values nbytes buf_size buf h =
                  Inr \<lparr>retval = 0, buf_out = buf, buf_size_out = buf_size, heap_out = h @ [None],
                       trace = pre @ [Free None,
                                      Blosc_cbuffer_sizes buf (blosc_cbuffer_sizes lib src),
                                      Malloc (blosc_cbuffer_sizes lib src) (Some (length h)), ev,
                                      Push_err ''blosc_filter'' H5E_CALLBACK ''Blosc decompression error'',
                                      Free (Some (length h))]\<rparr>))"
proof -
  note ld = load_live [OF buf]
  note st = blosc_filter_stage [OF dec]
  have c1: "flags AND H5Z_FLAG_REVERSE lib = 0 \<and> \<not> malloc_succeeds lib h buf_size \<longrightarrow>
        blosc_filter lib flags cd_nelmts cd_values nbytes buf_size buf h =
          Inr \<lparr>retval = 0, buf_out = buf, buf_size_out = buf_size, heap_out = h,
               trace = pre @ [Malloc buf_size None,
                              Push_err ''blosc_filter'' H5E_CALLBACK ''Can't allocate compression buffer'',
                              Free None]\<rparr>"
    by (simp add: st compressing_eq)
  have c2: "flags AND H5Z_FLAG_REVERSE lib = 0 \<and> malloc_succeeds lib h buf_size
          \<and> sint (fst (compress_answer lib L nbytes src)) < 0
          \<and> length (take (unat nbytes) (snd (compress_answer lib L nbytes src))) \<le> unat buf_size \<longrightarrow>
          (\<exists>ev. compress_status ev = Some (fst (compress_answer lib L nbytes src))
              \<and> blosc_filter lib flags cd_nelmts cd_values nbytes buf_size buf h =
                  Inr \<lparr>retval = 0, buf_out = buf, buf_size_out = buf_size, heap_out = h @ [None],
                       trace = pre @ [Malloc buf_size (Some (length h)), ev,
                                      Push_err ''blosc_filter'' H5E_CALLBACK ''Blosc compression error'',
                                      Free (Some (length h))]\<rparr>)"
  proof
    assume h2: "flags AND H5Z_FLAG_REVERSE lib = 0 \<and> malloc_succeeds lib h buf_size
          \<and> sint (fst (compress_answer lib L nbytes src)) < 0
          \<and> length (take (unat nbytes) (snd (compress_answer lib L nbytes src))) \<le> unat buf_size"
    let ?ev = "snd (compress_call lib (L\<lparr>outbuf_size := buf_size\<rparr>) nbytes src buf (Some (length h)))"
    have "compress_status ?ev = Some (fst (compress_answer lib L nbytes src))"
      by (simp add: compress_call_answer)
    moreover have "blosc_filter lib flags cd_nelmts cd_values nbytes buf_size buf h =
                  Inr \<lparr>retval = 0, buf_out = buf, buf_size_out = buf_size, heap_out = h @ [None],
                       trace = pre @ [Malloc buf_size (Some (length h)), ?ev,
                                      Push_err ''blosc_filter'' H5E_CALLBACK ''Blosc compression error'',
                                      Free (Some (length h))]\<rparr>"
      using h2 by (auto simp add: st compressing_eq ld Let_def compress_call_answer)
    ultimately show "\<exists>ev. compress_status ev = Some (fst (compress_answer lib L nbytes src))
              \<and> blosc_filter lib flags cd_nelmts cd_values nbytes buf_size buf h =
                  Inr \<lparr>retval = 0, buf_out = buf, buf_size_out = buf_size, heap_out = h @ [None],
                       trace = pre @ [Malloc buf_size (Some (length h)), ev,
                                      Push_err ''blosc_filter'' H5E_CALLBACK ''Blosc compression error'',
                                      Free (Some (length h))]\<rparr>"
      by blast
  qed
  have d1: "flags AND H5Z_FLAG_REVERSE lib \<noteq> 0
          \<and> \<not> malloc_succeeds lib h (blosc_cbuffer_sizes lib src) \<longrightarrow>
          blosc_filter lib flags cd_nelmts cd_values nbytes buf_size buf h =
            Inr \<lparr>retval = 0, buf_out = buf, buf_size_out = buf_size, heap_out = h,
                 trace = pre @ [Free None, Blosc_cbuffer_sizes buf (blosc_cbuffer_sizes lib src),
                                Malloc (blosc_cbuffer_sizes lib src) None,
                                Push_err ''blosc_filter'' H5E_CALLBACK ''Can't allocate decompression buffer'',
                                Free None]\<rparr>"
    by (simp add: st decompressing_eq ld Let_def)
  have d2: "flags AND H5Z_FLAG_REVERSE lib \<noteq> 0
          \<and> malloc_succeeds lib h (blosc_cbuffer_sizes lib src)
          \<and> sint (fst (decompress_answer lib src (blosc_cbuffer_sizes lib src))) \<le> 0 \<longrightarrow>
          (\<exists>ev. decompress_status ev
                   = Some (fst (decompress_answer lib src (blosc_cbuffer_sizes lib src)))
              \<and> blosc_filter lib flags cd_nelmts cd_values nbytes buf_size buf h =
                  Inr \<lparr>retval = 0, buf_out = buf, buf_size_out = buf_size, heap_out = h @ [None],
                       trace = pre @ [Free None,
                                      Blosc_cbuffer_sizes buf (blosc_cbuffer_sizes lib src),
                                      Malloc (blosc_cbuffer_sizes lib src) (Some (length h)), ev,
                                      Push_err ''blosc_filter'' H5E_CALLBACK ''Blosc decompression error'',
                                      Free (Some (length h))]\<rparr>)"
  proof
    assume h4: "flags AND H5Z_FLAG_REVERSE lib \<noteq> 0
          \<and> malloc_succeeds lib h (blosc_cbuffer_sizes lib src)
          \<and> sint (fst (decompress_answer lib src (blosc_cbuffer_sizes lib src))) \<le> 0"
    let ?n = "blosc_cbuffer_sizes lib src"
    let ?ev = "snd (decompress_call lib src buf (Some (length h)) ?n)"
    have "decompress_status ?ev = Some (fst (decompress_answer lib src ?n))"
      by (simp add: decompress_call_answer)
    moreover have "blosc_filter lib flags cd_nelmts cd_values nbytes buf_size buf h =
                  Inr \<lparr>retval = 0, buf_out = buf, buf_size_out = buf_size, heap_out = h @ [None],
                       trace = pre @ [Free None, Blosc_cbuffer_sizes buf ?n,
                                      Malloc ?n (Some (length h)), ?ev,
                                      Push_err ''blosc_filter'' H5E_CALLBACK ''Blosc decompression error'',
                                      Free (Some (length h))]\<rparr>"
      using h4 by (simp add: st decompressing_eq ld Let_def decompress_call_answer)
    ultimately show "\<exists>ev. decompress_status ev = Some (fst (decompress_answer lib src ?n))
              \<and> blosc_filter lib flags cd_nelmts cd_values nbytes buf_size buf h =
                  Inr \<lparr>retval = 0, buf_out = buf, buf_size_out = buf_size, heap_out = h @ [None],
                       trace = pre @ [Free None, Blosc_cbuffer_sizes buf ?n,
                                      Malloc ?n (Some (length h)), ev,
                                      Push_err ''blosc_filter'' H5E_CALLBACK ''Blosc decompression error'',
                                      Free (Some (length h))]\<rparr>"
      by blast
  qed
  show ?thesis
    using c1 c2 d1 d2 by (intro conjI)
qed

lemmas answer_simps = compress_answer_def decompress_answer_def test_lib_def

text \<open>
  The four failures on a block of 8 bytes, with a parameter array of 4 slots: the
  allocator refuses when writing; the compressing codec answers -1; the allocator
  refuses when reading; the decompressing codec answers 0.
\<close>

theorem blosc_filter_failed_exit_witness:
  "\<not> malloc_succeeds (test_lib 2 5 0 0 False) [Some [1, 2, 3, 4, 5, 6, 7, 8]] 8
   \<and> blosc_filter (test_lib 2 5 0 0 False) 0 4 [2, 2, 4, 400] 8 8 (Some 0)
        [Some [1, 2, 3, 4, 5, 6, 7, 8]]
      = Inr \<lparr>retval = 0, buf_out = Some 0, buf_size_out = 8,
             heap_out = [Some [1, 2, 3, 4, 5, 6, 7, 8]],
             trace = [Malloc 8 None,
                      Push_err ''blosc_filter'' H5E_CALLBACK ''Can't allocate compression buffer'',
                      Free None]\<rparr>
   \<and> sint (fst (compress_answer (test_lib 2 5 (- 1) 0 True)
                  \<lparr>typesize = 4, outbuf_size = 400, clevel = 5, doshuffle = 1,
                   compname = Some ''blosclz''\<rparr> 8 [1, 2, 3, 4, 5, 6, 7, 8])) < 0
   \<and> blosc_filter (test_lib 2 5 (- 1) 0 True) 0 4 [2, 2, 4, 400] 8 8 (Some 0)
        [Some [1, 2, 3, 4, 5, 6, 7, 8]]
      = Inr \<lparr>retval = 0, buf_out = Some 0, buf_size_out = 8,
             heap_out = [Some [1, 2, 3, 4, 5, 6, 7, 8], None],
             trace = [Malloc 8 (Some 1),
                      Blosc_compress_ctx 5 1 4 8 (Some 0) (Some 1) 8 (Some ''blosclz'') 0 1 (- 1),
                      Push_err ''blosc_filter'' H5E_CALLBACK ''Blosc compression error'',
                      Free (Some 1)]\<rparr>
   \<and> blosc_filter (test_lib 2 5 0 0 False) 0x100 4 [2, 2, 4, 400] 8 8 (Some 0)
        [Some [1, 2, 3, 4, 6, 6, 7, 8]]
      = Inr \<lparr>retval = 0, buf_out = Some 0, buf_size_out = 8,
             heap_out = [Some [1, 2, 3, 4, 6, 6, 7, 8]],
             trace = [Free None, Blosc_cbuffer_sizes (Some 0) 6, Malloc 6 None,
                      Push_err ''blosc_filter'' H5E_CALLBACK ''Can't allocate decompression buffer'',
                      Free None]\<rparr>
   \<and> sint (fst (decompress_answer (test_lib 2 5 0 0 True) [1, 2, 3, 4, 6, 6, 7, 8] 6)) \<le> 0
   \<and> blosc_filter (test_lib 2 5 0 0 True) 0x100 4 [2, 2, 4, 400] 8 8 (Some 0)
        [Some [1, 2, 3, 4, 6, 6, 7, 8]]
      = Inr \<lparr>retval = 0, buf_out = Some 0, buf_size_out = 8,
             heap_out = [Some [1, 2, 3, 4, 6, 6, 7, 8], None],
             trace = [Free None, Blosc_cbuffer_sizes (Some 0) 6, Malloc 6 (Some 1),
                      Blosc_decompress_ctx (Some 0) (Some 1) 6 1 0,
                      Push_err ''blosc_filter'' H5E_CALLBACK ''Blosc decompression error'',
                      Free (Some 1)]\<rparr>"
proof -
  let ?L = "\<lparr>typesize = 4, outbuf_size = 400, clevel = 5, doshuffle = 1,
             compname = Some ''blosclz''\<rparr>"
  let ?hw = "[Some [1, 2, 3, 4, 5, 6, 7, 8 :: byte]]"
  let ?hr = "[Some [1, 2, 3, 4, 6, 6, 7, 8 :: byte]]"
  have dec: "decode_params (test_lib v m c d al) 4 [2, 2, 4, 400] = Inr (?L, [], False)"
    for v m c d al
    by (simp add: run_simps)
  have b: "Some (0 :: nat) = Some 0" "(0 :: nat) < length ?hw" "(0 :: nat) < length ?hr"
    "?hw ! 0 = Some [1, 2, 3, 4, 5, 6, 7, 8]" "?hr ! 0 = Some [1, 2, 3, 4, 6, 6, 7, 8]"
    by simp_all
  note w1 = blosc_filter_failed_exit [OF dec [of 2 5 0 0 False] b(1) b(2) b(4),
      where flags = 0 and nbytes = 8 and buf_size = 8, THEN conjunct1]
  note w2 = blosc_filter_failed_exit [OF dec [of 2 5 "- 1" 0 True] b(1) b(2) b(4),
      where flags = 0 and nbytes = 8 and buf_size = 8, THEN conjunct2, THEN conjunct1]
  note w3 = blosc_filter_failed_exit [OF dec [of 2 5 0 0 False] b(1) b(3) b(5),
      where flags = "0x100" and nbytes = 8 and buf_size = 8,
      THEN conjunct2, THEN conjunct2, THEN conjunct1]
  note w4 = blosc_filter_failed_exit [OF dec [of 2 5 0 0 True] b(1) b(3) b(5),
      where flags = "0x100" and nbytes = 8 and buf_size = 8,
      THEN conjunct2, THEN conjunct2, THEN conjunct2]
  have r1: "blosc_filter (test_lib 2 5 0 0 False) 0 4 [2, 2, 4, 400] 8 8 (Some 0) ?hw
      = Inr \<lparr>retval = 0, buf_out = Some 0, buf_size_out = 8, heap_out = ?hw,
             trace = [Malloc 8 None,
                      Push_err ''blosc_filter'' H5E_CALLBACK ''Can't allocate compression buffer'',
                      Free None]\<rparr>"
    using w1 by (simp add: answer_simps)
  have r3: "blosc_filter (test_lib 2 5 0 0 False) 0x100 4 [2, 2, 4, 400] 8 8 (Some 0) ?hr
      = Inr \<lparr>retval = 0, buf_out = Some 0, buf_size_out = 8, heap_out = ?hr,
             trace = [Free None, Blosc_cbuffer_sizes (Some 0) 6, Malloc 6 None,
                      Push_err ''blosc_filter'' H5E_CALLBACK ''Can't allocate decompression buffer'',
                      Free None]\<rparr>"
    using w3 by (simp add: answer_simps)
  have r2: "blosc_filter (test_lib 2 5 (- 1) 0 True) 0 4 [2, 2, 4, 400] 8 8 (Some 0) ?hw
      = Inr \<lparr>retval = 0, buf_out = Some 0, buf_size_out = 8, heap_out = ?hw @ [None],
             trace = [Malloc 8 (Some 1),
                      Blosc_compress_ctx 5 1 4 8 (Some 0) (Some 1) 8 (Some ''blosclz'') 0 1 (- 1),
                      Push_err ''blosc_filter'' H5E_CALLBACK ''Blosc compression error'',
                      Free (Some 1)]\<rparr>"
    using w2 by (simp add: run_simps)
  have r4: "blosc_filter (test_lib 2 5 0 0 True) 0x100 4 [2, 2, 4, 400] 8 8 (Some 0) ?hr
      = Inr \<lparr>retval = 0, buf_out = Some 0, buf_size_out = 8, heap_out = ?hr @ [None],
             trace = [Free None, Blosc_cbuffer_sizes (Some 0) 6, Malloc 6 (Some 1),
                      Blosc_decompress_ctx (Some 0) (Some 1) 6 1 0,
                      Push_err ''blosc_filter'' H5E_CALLBACK ''Blosc decompression error'',
                      Free (Some 1)]\<rparr>"
    using w4 by (simp add: run_simps)
  show ?thesis
    using r1 r2 r3 r4 by (simp add: answer_simps)
qed

lemma update_before_fresh:
  "a < length h \<Longrightarrow> (h @ [blk])[a := x] = h[a := x] @ [blk]"
  by (simp add: list_update_append1)

text \<open>
  C5. Let the first stage end without \<open>goto failed\<close> and let \<open>*buf\<close> name a live
  block. When the allocator gives a block and the codec answers with a positive
  status, in either direction, the call returns that status as the length of the
  result; \<open>*buf\<close> is the new block, which holds what the codec wrote; \<open>*buf_size\<close> is
  the size that was allocated (the old \<open>*buf_size\<close> when writing, the size in the
  header when reading); the caller's block is freed, and nothing else is. The trace is
  the allocation, the codec call with that status, and the \<open>free\<close> of the caller's
  block.
\<close>

theorem blosc_filter_success:
  assumes dec: "decode_params lib cd_nelmts cd_values = Inr (L, pre, False)"
    and buf: "buf = Some a" "a < length h" "h ! a = Some src"
  shows
    "(flags AND H5Z_FLAG_REVERSE lib = 0 \<and> malloc_succeeds lib h buf_size
        \<and> 0 < sint (fst (compress_answer lib L nbytes src))
        \<and> length (take (unat nbytes) (snd (compress_answer lib L nbytes src))) \<le> unat buf_size \<longrightarrow>
        (\<exists>ev. compress_status ev = Some (fst (compress_answer lib L nbytes src))
            \<and> blosc_filter lib flags cd_nelmts cd_values nbytes buf_size buf h =
                Inr \<lparr>retval = scast (fst (compress_answer lib L nbytes src)),
                     buf_out = Some (length h), buf_size_out = buf_size,
                     heap_out = h[a := None] @
                       [Some (take (unat nbytes) (snd (compress_answer lib L nbytes src)) @
                              replicate (unat buf_size
                                - length (take (unat nbytes) (snd (compress_answer lib L nbytes src)))) 0)],
                     trace = pre @ [Malloc buf_size (Some (length h)), ev, Free buf]\<rparr>)
        \<and> uint (scast (fst (compress_answer lib L nbytes src)) :: size_t)
            = sint (fst (compress_answer lib L nbytes src)))
     \<and> (flags AND H5Z_FLAG_REVERSE lib \<noteq> 0
          \<and> malloc_succeeds lib h (blosc_cbuffer_sizes lib src)
          \<and> 0 < sint (fst (decompress_answer lib src (blosc_cbuffer_sizes lib src))) \<longrightarrow>
          (\<exists>ev. decompress_status ev
                   = Some (fst (decompress_answer lib src (blosc_cbuffer_sizes lib src)))
              \<and> blosc_filter lib flags cd_nelmts cd_values nbytes buf_size buf h =
                  Inr \<lparr>retval = scast (fst (decompress_answer lib src (blosc_cbuffer_sizes lib src))),
                       buf_out = Some (length h), buf_size_out = blosc_cbuffer_sizes lib src,
                       heap_out = h[a := None] @
                         [Some (take (unat (blosc_cbuffer_sizes lib src))
                                  (snd (decompress_answer lib src (blosc_cbuffer_sizes lib src))) @
                                replicate (unat (blosc_cbuffer_sizes lib src)
                                  - length (take (unat (blosc_cbuffer_sizes lib src))
                                      (snd (decompress_answer lib src (blosc_cbuffer_sizes lib src))))) 0)],
                       trace = pre @ [Free None,
                                      Blosc_cbuffer_sizes buf (blosc_cbuffer_sizes lib src),
                                      Malloc (blosc_cbuffer_sizes lib src) (Some (length h)), ev,
                                      Free buf]\<rparr>)
          \<and> uint (scast (fst (decompress_answer lib src (blosc_cbuffer_sizes lib src))) :: size_t)
              = sint (fst (decompress_answer lib src (blosc_cbuffer_sizes lib src))))"
proof (intro conjI impI)
  note ld = load_live [OF buf]
  note st = blosc_filter_stage [OF dec]
  have tb: "the buf = a" using buf(1) by simp
  {
    assume h1: "flags AND H5Z_FLAG_REVERSE lib = 0 \<and> malloc_succeeds lib h buf_size
        \<and> 0 < sint (fst (compress_answer lib L nbytes src))
        \<and> length (take (unat nbytes) (snd (compress_answer lib L nbytes src))) \<le> unat buf_size"
    let ?s = "fst (compress_answer lib L nbytes src)"
    let ?ev = "snd (compress_call lib (L\<lparr>outbuf_size := buf_size\<rparr>) nbytes src buf (Some (length h)))"
    have nz: "?s \<noteq> 0" "\<not> sint ?s < 0" using h1 by auto
    have "compress_status ?ev = Some ?s"
      by (simp add: compress_call_answer)
    moreover have "blosc_filter lib flags cd_nelmts cd_values nbytes buf_size buf h =
                Inr \<lparr>retval = scast ?s, buf_out = Some (length h), buf_size_out = buf_size,
                     heap_out = h[a := None] @
                       [Some (take (unat nbytes) (snd (compress_answer lib L nbytes src)) @
                              replicate (unat buf_size
                                - length (take (unat nbytes) (snd (compress_answer lib L nbytes src)))) 0)],
                     trace = pre @ [Malloc buf_size (Some (length h)), ?ev, Free buf]\<rparr>"
      using h1 nz buf(2) tb
      by (auto simp add: st compressing_eq ld Let_def compress_call_answer update_before_fresh)
    ultimately show "\<exists>ev. compress_status ev = Some ?s
            \<and> blosc_filter lib flags cd_nelmts cd_values nbytes buf_size buf h =
                Inr \<lparr>retval = scast ?s, buf_out = Some (length h), buf_size_out = buf_size,
                     heap_out = h[a := None] @
                       [Some (take (unat nbytes) (snd (compress_answer lib L nbytes src)) @
                              replicate (unat buf_size
                                - length (take (unat nbytes) (snd (compress_answer lib L nbytes src)))) 0)],
                     trace = pre @ [Malloc buf_size (Some (length h)), ev, Free buf]\<rparr>"
      by blast
    show "uint (scast ?s :: size_t) = sint ?s"
      using h1 by (simp add: uint_scast_nonneg)
  }
  {
    assume h2: "flags AND H5Z_FLAG_REVERSE lib \<noteq> 0
          \<and> malloc_succeeds lib h (blosc_cbuffer_sizes lib src)
          \<and> 0 < sint (fst (decompress_answer lib src (blosc_cbuffer_sizes lib src)))"
    let ?n = "blosc_cbuffer_sizes lib src"
    let ?s = "fst (decompress_answer lib src ?n)"
    let ?ev = "snd (decompress_call lib src buf (Some (length h)) ?n)"
    have nz: "\<not> sint ?s \<le> 0" using h2 by auto
    have "decompress_status ?ev = Some ?s"
      by (simp add: decompress_call_answer)
    moreover have "blosc_filter lib flags cd_nelmts cd_values nbytes buf_size buf h =
                  Inr \<lparr>retval = scast ?s, buf_out = Some (length h), buf_size_out = ?n,
                       heap_out = h[a := None] @
                         [Some (take (unat ?n) (snd (decompress_answer lib src ?n)) @
                                replicate (unat ?n
                                  - length (take (unat ?n) (snd (decompress_answer lib src ?n)))) 0)],
                       trace = pre @ [Free None, Blosc_cbuffer_sizes buf ?n,
                                      Malloc ?n (Some (length h)), ?ev, Free buf]\<rparr>"
      using h2 nz buf(2) tb
      by (auto simp add: st decompressing_eq ld Let_def decompress_call_answer update_before_fresh)
    ultimately show "\<exists>ev. decompress_status ev = Some ?s
              \<and> blosc_filter lib flags cd_nelmts cd_values nbytes buf_size buf h =
                  Inr \<lparr>retval = scast ?s, buf_out = Some (length h), buf_size_out = ?n,
                       heap_out = h[a := None] @
                         [Some (take (unat ?n) (snd (decompress_answer lib src ?n)) @
                                replicate (unat ?n
                                  - length (take (unat ?n) (snd (decompress_answer lib src ?n)))) 0)],
                       trace = pre @ [Free None, Blosc_cbuffer_sizes buf ?n,
                                      Malloc ?n (Some (length h)), ev, Free buf]\<rparr>"
      by blast
    show "uint (scast ?s :: size_t) = sint ?s"
      using h2 by (simp add: uint_scast_nonneg)
  }
qed

text \<open>
  Writing 8 bytes that the codec brings down to 3, and reading a payload that the codec
  expands to the 6 bytes its header announces.
\<close>

theorem blosc_filter_success_witness:
  "0 < sint (fst (compress_answer (test_lib 2 5 3 0 True)
                  \<lparr>typesize = 4, outbuf_size = 400, clevel = 5, doshuffle = 1,
                   compname = Some ''blosclz''\<rparr> 8 [1, 2, 3, 4, 5, 6, 7, 8]))
   \<and> blosc_filter (test_lib 2 5 3 0 True) 0 4 [2, 2, 4, 400] 8 8 (Some 0)
        [Some [1, 2, 3, 4, 5, 6, 7, 8]]
      = Inr \<lparr>retval = 3, buf_out = Some 1, buf_size_out = 8,
             heap_out = [None, Some [1, 2, 3, 0, 0, 0, 0, 0]],
             trace = [Malloc 8 (Some 1),
                      Blosc_compress_ctx 5 1 4 8 (Some 0) (Some 1) 8 (Some ''blosclz'') 0 1 3,
                      Free (Some 0)]\<rparr>
   \<and> 0 < sint (fst (decompress_answer (test_lib 2 5 0 6 True) [1, 2, 3, 4, 6, 6, 7, 8] 6))
   \<and> blosc_filter (test_lib 2 5 0 6 True) 0x100 4 [2, 2, 4, 400] 8 8 (Some 0)
        [Some [1, 2, 3, 4, 6, 6, 7, 8]]
      = Inr \<lparr>retval = 6, buf_out = Some 1, buf_size_out = 6,
             heap_out = [None, Some [1, 2, 3, 4, 6, 6]],
             trace = [Free None, Blosc_cbuffer_sizes (Some 0) 6, Malloc 6 (Some 1),
                      Blosc_decompress_ctx (Some 0) (Some 1) 6 1 6, Free (Some 0)]\<rparr>"
proof -
  let ?L = "\<lparr>typesize = 4, outbuf_size = 400, clevel = 5, doshuffle = 1,
             compname = Some ''blosclz''\<rparr>"
  let ?hw = "[Some [1, 2, 3, 4, 5, 6, 7, 8 :: byte]]"
  let ?hr = "[Some [1, 2, 3, 4, 6, 6, 7, 8 :: byte]]"
  have dec: "decode_params (test_lib v m c d al) 4 [2, 2, 4, 400] = Inr (?L, [], False)"
    for v m c d al
    by (simp add: run_simps)
  have b: "Some (0 :: nat) = Some 0" "(0 :: nat) < length ?hw" "(0 :: nat) < length ?hr"
    "?hw ! 0 = Some [1, 2, 3, 4, 5, 6, 7, 8]" "?hr ! 0 = Some [1, 2, 3, 4, 6, 6, 7, 8]"
    by simp_all
  note w1 = blosc_filter_success [OF dec [of 2 5 3 0 True] b(1) b(2) b(4),
      where flags = 0 and nbytes = 8 and buf_size = 8, THEN conjunct1]
  note w2 = blosc_filter_success [OF dec [of 2 5 0 6 True] b(1) b(3) b(5),
      where flags = "0x100" and nbytes = 8 and buf_size = 8, THEN conjunct2]
  have r1: "blosc_filter (test_lib 2 5 3 0 True) 0 4 [2, 2, 4, 400] 8 8 (Some 0) ?hw
      = Inr \<lparr>retval = 3, buf_out = Some 1, buf_size_out = 8,
             heap_out = [None, Some [1, 2, 3, 0, 0, 0, 0, 0]],
             trace = [Malloc 8 (Some 1),
                      Blosc_compress_ctx 5 1 4 8 (Some 0) (Some 1) 8 (Some ''blosclz'') 0 1 3,
                      Free (Some 0)]\<rparr>"
    using w1 by (simp add: run_simps)
  have r2: "blosc_filter (test_lib 2 5 0 6 True) 0x100 4 [2, 2, 4, 400] 8 8 (Some 0) ?hr
      = Inr \<lparr>retval = 6, buf_out = Some 1, buf_size_out = 6,
             heap_out = [None, Some [1, 2, 3, 4, 6, 6]],
             trace = [Free None, Blosc_cbuffer_sizes (Some 0) 6, Malloc 6 (Some 1),
                      Blosc_decompress_ctx (Some 0) (Some 1) 6 1 6, Free (Some 0)]\<rparr>"
    using w2 by (simp add: run_simps)
  show ?thesis
    using r1 r2 by (simp add: answer_simps)
qed






end
